theory Spec2Isabelle
  imports Main
begin

section \<open>The test-database creation module of django\_spanner\<close>

text \<open>
  A shallow embedding of \<^verbatim>\<open>django_spanner/creation.py\<close>: the class
  \<^verbatim>\<open>DatabaseCreation\<close> with its methods \<^verbatim>\<open>mark_skips\<close>,
  \<^verbatim>\<open>create_test_db\<close>, \<^verbatim>\<open>_create_test_db\<close>,
  \<^verbatim>\<open>_execute_create_test_db\<close> and \<^verbatim>\<open>_destroy_test_db\<close>.

  Every method takes the world it runs in and returns its outcome together with the
  world it leaves behind. The outcome is a sum: \<open>Inl e\<close> is the Python exception
  \<open>e\<close> leaving the method, \<open>Inr v\<close> is the returned value. The world is kept
  also when an exception leaves, so that what happened before the exception can be read.
  Names that start with an underscore in the source start with \<open>u_\<close> here.
\<close>

subsection \<open>Exceptions\<close>

text \<open>
  \<open>Exception cls msg\<close> is an instance of a subclass \<open>cls\<close> of Python's
  \<^verbatim>\<open>Exception\<close> whose \<^verbatim>\<open>str\<close> is \<open>msg\<close>. \<^verbatim>\<open>sys.exit(n)\<close>
  raises \<open>SystemExit n\<close>. \<open>SystemExit\<close> and \<open>KeyboardInterrupt\<close> derive from
  \<^verbatim>\<open>BaseException\<close> only, so \<^verbatim>\<open>except Exception\<close> does not catch them.
\<close>

datatype exn = Exception string string | SystemExit int | KeyboardInterrupt

subsection \<open>Test cases and their methods\<close>

text \<open>
  A test method is either a function as its class defines it (named by an opaque body)
  or the function that \<^verbatim>\<open>unittest.skip(reason)\<close> builds around another one.
  The decorator of the standard library is
  \<^verbatim>\<open>
  def skip(reason):
      def decorator(test_item):
          if not isinstance(test_item, type):
              @functools.wraps(test_item)
              def skip_wrapper(*args, **kwargs):
                  raise SkipTest(reason)
              test_item = skip_wrapper
          ...
          return test_item
      return decorator
  \<close>
  Each application builds a new \<^verbatim>\<open>skip_wrapper\<close> that keeps the function it was
  given (as \<^verbatim>\<open>__wrapped__\<close>) and never calls it.
\<close>

datatype test_method = Original string | SkipWrapper string test_method

definition skip :: "string \<Rightarrow> test_method \<Rightarrow> test_method" where
  "skip reason test_item = SkipWrapper reason test_item"

text \<open>What running a test method does: its own body, or the report of a skip.\<close>

datatype test_report = Executed string | Skipped string

fun invoke :: "test_method \<Rightarrow> test_report" where
  "invoke (Original body) = Executed body"
| "invoke (SkipWrapper reason wrapped) = Skipped reason"


text \<open>
  Classes live in a store, addressed by \<open>class_id\<close>. A class has its own attribute
  dictionary and the rest of its method resolution order (its \<^verbatim>\<open>__mro__\<close> without
  the class itself). \<^verbatim>\<open>getattr\<close> on a class reads the first dictionary of the
  order that has the name and raises \<^verbatim>\<open>AttributeError\<close> when none has it;
  \<^verbatim>\<open>setattr\<close> writes the class's own dictionary.
\<close>

type_synonym class_id = nat

record py_class =
  own_attrs :: "string \<rightharpoonup> test_method"
  mro_tail :: "class_id list"

subsection \<open>Events\<close>

text \<open>
  The calls the module makes to its collaborators, in the order it makes them, each
  with the outcome the collaborator gave (\<open>None\<close>: it returned; \<open>Some e\<close>: it
  raised \<open>e\<close>).
\<close>

datatype event =
    SetAttr class_id string test_method
  | Log string
  | DatabaseCreate string "exn option"
  | DatabaseDrop string "exn option"
  | Input string "exn + string"
  | ConnectionClose "exn option"
  | SettingsSetName string string
  | ConnectionSetName string
  | SerializeDb "exn + string"
  | CallCommand string string "exn option"
  | EnsureConnection "exn option"

fun is_create :: "event \<Rightarrow> bool" where
  "is_create (DatabaseCreate n r) = True"
| "is_create ev = False"

fun is_drop :: "event \<Rightarrow> bool" where
  "is_drop (DatabaseDrop n r) = True"
| "is_drop ev = False"

fun is_input :: "event \<Rightarrow> bool" where
  "is_input (Input p r) = True"
| "is_input ev = False"

fun is_serialize :: "event \<Rightarrow> bool" where
  "is_serialize (SerializeDb r) = True"
| "is_serialize ev = False"

fun is_setattr :: "event \<Rightarrow> bool" where
  "is_setattr (SetAttr c n m) = True"
| "is_setattr ev = False"

fun is_log :: "event \<Rightarrow> bool" where
  "is_log (Log s) = True"
| "is_log ev = False"

subsection \<open>The world and the collaborators\<close>

text \<open>
  The mutable state the module touches: the classes of the test suite, the two
  settings dictionaries (\<^verbatim>\<open>settings.DATABASES\<close> and the connection's
  \<^verbatim>\<open>settings_dict\<close>), the connection's \<^verbatim>\<open>_test_serialized_contents\<close>
  (\<open>None\<close> while the attribute is not set), and the trace of events so far.
\<close>

record world =
  classes :: "class_id \<Rightarrow> py_class"
  settings_DATABASES :: "string \<rightharpoonup> (string \<rightharpoonup> string)"
  settings_dict :: "string \<rightharpoonup> string"
  test_serialized_contents :: "string option"
  trace :: "event list"

text \<open>
  What the module reads and calls but does not define. The base class
  \<^verbatim>\<open>BaseDatabaseCreation\<close> of Django supplies \<^verbatim>\<open>_get_test_db_name\<close>
  (a function of the connection's \<^verbatim>\<open>settings_dict\<close>),
  \<^verbatim>\<open>_get_database_display_str\<close> and \<^verbatim>\<open>serialize_db_to_string\<close>; they
  are parameters here. The outcome of the \<open>k\<close>-th call to the database service, to
  the console and to the other collaborators is a parameter too, so that a theorem about
  every \<open>env\<close> is a theorem about every behaviour of the collaborators.
\<close>

record env =
  environ :: "string \<rightharpoonup> string"
  skip_tests :: "string list"
  INSTALLED_APPS :: "string list"
  import_string :: "string \<Rightarrow> exn + class_id"
  connection_alias :: string
  get_test_db_name :: "(string \<rightharpoonup> string) \<Rightarrow> string"
  get_database_display_str :: "int \<Rightarrow> string \<Rightarrow> string"
  create_result :: "nat \<Rightarrow> string \<Rightarrow> exn option"
  drop_result :: "nat \<Rightarrow> string \<Rightarrow> exn option"
  input_result :: "nat \<Rightarrow> string \<Rightarrow> exn + string"
  close_result :: "exn option"
  serialize_result :: "exn + string"
  call_command_result :: "string \<Rightarrow> string \<Rightarrow> exn option"
  ensure_connection_result :: "exn option"

text \<open>How many events of a kind have happened so far.\<close>

definition count_events :: "(event \<Rightarrow> bool) \<Rightarrow> world \<Rightarrow> nat" where
  "count_events kind w = length (filter kind (trace w))"

definition emit :: "event \<Rightarrow> world \<Rightarrow> world" where
  "emit ev w = w\<lparr>trace := trace w @ [ev]\<rparr>"

definition log :: "string \<Rightarrow> world \<Rightarrow> world" where
  "log msg w = emit (Log msg) w"

subsection \<open>Strings\<close>

text \<open>
  \<^verbatim>\<open>s.rpartition(sep)\<close> for a one-character separator: the part before the last
  separator, the separator, the part after it; two empty strings and \<open>s\<close> when
  \<open>s\<close> has no separator. \<^verbatim>\<open>s.split(sep)[0]\<close> is the part before the first
  separator, all of \<open>s\<close> when there is none.
\<close>

definition rpartition :: "char \<Rightarrow> string \<Rightarrow> string \<times> string \<times> string" where
  "rpartition sep s =
     (if sep \<in> set s
      then (rev (tl (dropWhile (\<lambda>c. c \<noteq> sep) (rev s))), [sep],
            rev (takeWhile (\<lambda>c. c \<noteq> sep) (rev s)))
      else ([], [], s))"

definition split_first :: "char \<Rightarrow> string \<Rightarrow> string" where
  "split_first sep s = takeWhile (\<lambda>c. c \<noteq> sep) s"

subsection \<open>Attribute access on classes\<close>

fun lookup_mro :: "(class_id \<Rightarrow> py_class) \<Rightarrow> class_id list \<Rightarrow> string \<Rightarrow> test_method option" where
  "lookup_mro h [] name = None"
| "lookup_mro h (c # cs) name =
     (case own_attrs (h c) name of
        Some m \<Rightarrow> Some m
      | None \<Rightarrow> lookup_mro h cs name)"

definition getattr :: "world \<Rightarrow> class_id \<Rightarrow> string \<Rightarrow> exn + test_method" where
  "getattr w c name =
     (case lookup_mro (classes w) (c # mro_tail (classes w c)) name of
        None \<Rightarrow> Inl (Exception ''AttributeError'' name)
      | Some m \<Rightarrow> Inr m)"

definition setattr :: "class_id \<Rightarrow> string \<Rightarrow> test_method \<Rightarrow> world \<Rightarrow> world" where
  "setattr c name m w =
     emit (SetAttr c name m)
       (w\<lparr>classes := (classes w)(c := (classes w c)\<lparr>own_attrs := (own_attrs (classes w c))(name \<mapsto> m)\<rparr>)\<rparr>)"

subsection \<open>mark\_skips\<close>

text \<open>
  \<^verbatim>\<open>
  def mark_skips(self):
      for test_name in self.connection.features.skip_tests:
          test_case_name, _, method_name = test_name.rpartition(".")
          test_app = test_name.split(".")[0]
          # Importing a test app that isn't installed raises RuntimeError.
          if test_app in settings.INSTALLED_APPS:
              test_case = import_string(test_case_name)
              method = getattr(test_case, method_name)
              setattr(test_case, method_name, skip("unsupported by Spanner")(method))
  \<close>
  One round of the loop is \<open>mark_skip\<close>; the loop stops at the first exception.
\<close>

definition mark_skip :: "env \<Rightarrow> string \<Rightarrow> world \<Rightarrow> (exn + unit) \<times> world" where
  "mark_skip env test_name w =
     (case rpartition (CHR ''.'') test_name of (test_case_name, _, method_name) \<Rightarrow>
      let test_app = split_first (CHR ''.'') test_name in
      if test_app \<in> set (INSTALLED_APPS env) then
        (case import_string env test_case_name of
           Inl e \<Rightarrow> (Inl e, w)
         | Inr test_case \<Rightarrow>
             (case getattr w test_case method_name of
                Inl e \<Rightarrow> (Inl e, w)
              | Inr meth \<Rightarrow>
                  (Inr (), setattr test_case method_name
                             (skip ''unsupported by Spanner'' meth) w)))
      else (Inr (), w))"

fun mark_skips_loop :: "env \<Rightarrow> string list \<Rightarrow> world \<Rightarrow> (exn + unit) \<times> world" where
  "mark_skips_loop env [] w = (Inr (), w)"
| "mark_skips_loop env (test_name # rest) w =
     (case mark_skip env test_name w of
        (Inl e, w') \<Rightarrow> (Inl e, w')
      | (Inr _, w') \<Rightarrow> mark_skips_loop env rest w')"

definition mark_skips :: "env \<Rightarrow> world \<Rightarrow> (exn + unit) \<times> world" where
  "mark_skips env w = mark_skips_loop env (skip_tests env) w"

subsection \<open>Sequencing\<close>

text \<open>
  Statement after statement: the second runs in the world the first left, unless the
  first raised.
\<close>

definition and_then ::
  "(world \<Rightarrow> (exn + 'a) \<times> world) \<Rightarrow> ('a \<Rightarrow> world \<Rightarrow> (exn + 'b) \<times> world) \<Rightarrow>
   world \<Rightarrow> (exn + 'b) \<times> world" where
  "and_then m f w = (case m w of (Inl e, w') \<Rightarrow> (Inl e, w') | (Inr v, w') \<Rightarrow> f v w')"

definition outcome_of :: "exn option \<Rightarrow> exn + unit" where
  "outcome_of r = (case r of None \<Rightarrow> Inr () | Some e \<Rightarrow> Inl e)"

subsection \<open>The calls to the database service\<close>

text \<open>
  \<^verbatim>\<open>
  def _execute_create_test_db(self, cursor, parameters, keepdb=False):
      self.connection.instance.database(parameters["dbname"]).create()

  def _destroy_test_db(self, test_database_name, verbosity):
      self.connection.instance.database(test_database_name).drop()
  \<close>
  The cursor is always \<^verbatim>\<open>None\<close> and is left out. The service answers the
  \<open>k\<close>-th create and the \<open>k\<close>-th drop as \<open>env\<close> says, \<open>k\<close> counted
  from the trace.
\<close>

definition u_execute_create_test_db ::
  "env \<Rightarrow> (string \<rightharpoonup> string) \<Rightarrow> bool \<Rightarrow> world \<Rightarrow> (exn + unit) \<times> world" where
  "u_execute_create_test_db env parameters keepdb w =
     (case parameters ''dbname'' of
        None \<Rightarrow> (Inl (Exception ''KeyError'' ''dbname''), w)
      | Some dbname \<Rightarrow>
          let r = create_result env (count_events is_create w) dbname in
          (outcome_of r, emit (DatabaseCreate dbname r) w))"

definition u_destroy_test_db ::
  "env \<Rightarrow> string \<Rightarrow> int \<Rightarrow> world \<Rightarrow> (exn + unit) \<times> world" where
  "u_destroy_test_db env test_database_name verbosity w =
     (let r = drop_result env (count_events is_drop w) test_database_name in
      (outcome_of r, emit (DatabaseDrop test_database_name r) w))"

definition u_get_test_db_name :: "env \<Rightarrow> world \<Rightarrow> string" where
  "u_get_test_db_name env w = get_test_db_name env (settings_dict w)"

subsection \<open>The console\<close>

definition input :: "env \<Rightarrow> string \<Rightarrow> world \<Rightarrow> (exn + string) \<times> world" where
  "input env prompt w =
     (let r = input_result env (count_events is_input w) prompt in
      (r, emit (Input prompt r) w))"

definition prompt_text :: "string \<Rightarrow> string" where
  "prompt_text test_database_name =
     ''Type 'yes' if you would like to try deleting the test database '' @ [CHR 0x27] @
     test_database_name @ [CHR 0x27] @ '', or 'no' to cancel: ''"

subsection \<open>\_create\_test\_db\<close>

text \<open>
  \<^verbatim>\<open>
  test_database_name = self._get_test_db_name()
  test_db_params = {"dbname": test_database_name}
  try:
      self._execute_create_test_db(None, test_db_params, keepdb)
  except Exception as e:
      if keepdb:
          return test_database_name
      self.log("Got an error creating the test database: %s" % e)
      if not autoclobber:
          confirm = input(
              "Type 'yes' if you would like to try deleting the test "
              "database '%s', or 'no' to cancel: " % test_database_name
          )
      if autoclobber or confirm == "yes":
          try:
              if verbosity >= 1:
                  self.log("Destroying old test database for alias %s..." % (
                      self._get_database_display_str(verbosity, test_database_name),))
              self._destroy_test_db(test_database_name, verbosity)
              self._execute_create_test_db(None, test_db_params, keepdb)
          except Exception as e:
              self.log("Got an error recreating the test database: %s" % e)
              sys.exit(2)
      else:
          self.log("Tests cancelled.")
          sys.exit(1)
  return test_database_name
  \<close>
  The local variable \<^verbatim>\<open>confirm\<close> is a \<open>string option\<close>: \<open>None\<close> while
  nothing has been assigned to it. Reading it then raises
  \<^verbatim>\<open>UnboundLocalError\<close>.
\<close>

text \<open>The lines the method logs.\<close>

definition create_error_message :: "string \<Rightarrow> string" where
  "create_error_message e = ''Got an error creating the test database: '' @ e"

definition destroying_message :: "env \<Rightarrow> int \<Rightarrow> string \<Rightarrow> string" where
  "destroying_message env verbosity test_database_name =
     ''Destroying old test database for alias '' @
     get_database_display_str env verbosity test_database_name @ ''...''"

definition recreate_error_message :: "string \<Rightarrow> string" where
  "recreate_error_message e = ''Got an error recreating the test database: '' @ e"

definition cancelled_message :: string where
  "cancelled_message = ''Tests cancelled.''"

text \<open>Lines 102 to 106: the assignment to \<^verbatim>\<open>confirm\<close>, if it is made.\<close>

definition ask_confirm ::
  "env \<Rightarrow> bool \<Rightarrow> string \<Rightarrow> world \<Rightarrow> (exn + string option) \<times> world" where
  "ask_confirm env autoclobber test_database_name w =
     (if \<not> autoclobber
      then and_then (input env (prompt_text test_database_name))
             (\<lambda>answer w'. (Inr (Some answer), w')) w
      else (Inr None, w))"

text \<open>
  Line 107: \<^verbatim>\<open>autoclobber or confirm == "yes"\<close>. Python evaluates the right
  operand of \<^verbatim>\<open>or\<close> only when the left one is false.
\<close>

definition unbound_confirm :: exn where
  "unbound_confirm =
     Exception ''UnboundLocalError'' ''local variable 'confirm' referenced before assignment''"

definition disposition :: "bool \<Rightarrow> string option \<Rightarrow> exn + bool" where
  "disposition autoclobber confirm =
     (if autoclobber then Inr True
      else (case confirm of
              None \<Rightarrow> Inl unbound_confirm
            | Some answer \<Rightarrow> Inr (answer = ''yes'')))"

text \<open>Lines 109 to 119: the body of the inner \<^verbatim>\<open>try\<close>.\<close>

definition destroy_and_recreate ::
  "env \<Rightarrow> int \<Rightarrow> bool \<Rightarrow> string \<Rightarrow> (string \<rightharpoonup> string) \<Rightarrow> world \<Rightarrow> (exn + unit) \<times> world" where
  "destroy_and_recreate env verbosity keepdb test_database_name test_db_params w =
     (let w1 = (if verbosity \<ge> 1
                then log (destroying_message env verbosity test_database_name) w
                else w)
      in and_then (u_destroy_test_db env test_database_name verbosity)
           (\<lambda>_. u_execute_create_test_db env test_db_params keepdb) w1)"

text \<open>Lines 97 to 127: the handler of the outer \<^verbatim>\<open>try\<close>, for the caught \<open>e\<close>.\<close>

definition on_create_error ::
  "env \<Rightarrow> int \<Rightarrow> bool \<Rightarrow> bool \<Rightarrow> string \<Rightarrow> (string \<rightharpoonup> string) \<Rightarrow> string \<Rightarrow> world \<Rightarrow>
   (exn + string) \<times> world" where
  "on_create_error env verbosity autoclobber keepdb test_database_name test_db_params e w =
     (if keepdb then (Inr test_database_name, w)
      else
        and_then (ask_confirm env autoclobber test_database_name)
          (\<lambda>confirm w'.
             case disposition autoclobber confirm of
               Inl ex \<Rightarrow> (Inl ex, w')
             | Inr True \<Rightarrow>
                 (case destroy_and_recreate env verbosity keepdb
                         test_database_name test_db_params w' of
                    (Inr _, w'') \<Rightarrow> (Inr test_database_name, w'')
                  | (Inl (Exception cls e2), w'') \<Rightarrow>
                      (Inl (SystemExit 2),
                       log (recreate_error_message e2) w'')
                  | (Inl ex, w'') \<Rightarrow> (Inl ex, w''))
             | Inr False \<Rightarrow> (Inl (SystemExit 1), log cancelled_message w'))
          (log (create_error_message e) w))"

definition u_create_test_db ::
  "env \<Rightarrow> int \<Rightarrow> bool \<Rightarrow> bool \<Rightarrow> world \<Rightarrow> (exn + string) \<times> world" where
  "u_create_test_db env verbosity autoclobber keepdb w =
     (let test_database_name = u_get_test_db_name env w;
          test_db_params = [''dbname'' \<mapsto> test_database_name]
      in case u_execute_create_test_db env test_db_params keepdb w of
           (Inr _, w') \<Rightarrow> (Inr test_database_name, w')
         | (Inl (Exception cls e), w') \<Rightarrow>
             on_create_error env verbosity autoclobber keepdb
               test_database_name test_db_params e w'
         | (Inl ex, w') \<Rightarrow> (Inl ex, w'))"

subsection \<open>create\_test\_db\<close>

text \<open>
  \<^verbatim>\<open>
  if os.environ.get("RUNNING_SPANNER_BACKEND_TESTS") == "1":
      self.mark_skips()
  test_database_name = self._get_test_db_name()
  if verbosity >= 1:
      action = 'Creating'
      if keepdb:
          action = "Using existing"
      self.log('%s test database for alias %s...' % (
          action, self._get_database_display_str(verbosity, test_database_name)))
  self._create_test_db(verbosity, autoclobber, keepdb)
  self.connection.close()
  settings.DATABASES[self.connection.alias]["NAME"] = test_database_name
  self.connection.settings_dict["NAME"] = test_database_name
  if serialize:
      self.connection._test_serialized_contents = self.serialize_db_to_string()
  call_command('createcachetable', database=self.connection.alias)
  self.connection.ensure_connection()
  return test_database_name
  \<close>
\<close>

definition connection_close :: "env \<Rightarrow> world \<Rightarrow> (exn + unit) \<times> world" where
  "connection_close env w =
     (outcome_of (close_result env), emit (ConnectionClose (close_result env)) w)"

text \<open>
  \<^verbatim>\<open>settings.DATABASES[alias]["NAME"] = name\<close>: the lookup of the alias raises
  \<^verbatim>\<open>KeyError\<close> when the alias is not configured.
\<close>

definition settings_set_name :: "env \<Rightarrow> string \<Rightarrow> world \<Rightarrow> (exn + unit) \<times> world" where
  "settings_set_name env name w =
     (case settings_DATABASES w (connection_alias env) of
        None \<Rightarrow> (Inl (Exception ''KeyError'' (connection_alias env)), w)
      | Some db \<Rightarrow>
          (Inr (),
           emit (SettingsSetName (connection_alias env) name)
             (w\<lparr>settings_DATABASES :=
                  (settings_DATABASES w)(connection_alias env \<mapsto> db(''NAME'' \<mapsto> name))\<rparr>)))"

definition connection_set_name :: "string \<Rightarrow> world \<Rightarrow> (exn + unit) \<times> world" where
  "connection_set_name name w =
     (Inr (), emit (ConnectionSetName name)
                (w\<lparr>settings_dict := (settings_dict w)(''NAME'' \<mapsto> name)\<rparr>))"

definition serialize_db_to_string :: "env \<Rightarrow> world \<Rightarrow> (exn + string) \<times> world" where
  "serialize_db_to_string env w =
     (serialize_result env, emit (SerializeDb (serialize_result env)) w)"

definition set_test_serialized_contents :: "string \<Rightarrow> world \<Rightarrow> (exn + unit) \<times> world" where
  "set_test_serialized_contents contents w =
     (Inr (), w\<lparr>test_serialized_contents := Some contents\<rparr>)"

definition call_command :: "env \<Rightarrow> string \<Rightarrow> string \<Rightarrow> world \<Rightarrow> (exn + unit) \<times> world" where
  "call_command env command database w =
     (let r = call_command_result env command database in
      (outcome_of r, emit (CallCommand command database r) w))"

definition ensure_connection :: "env \<Rightarrow> world \<Rightarrow> (exn + unit) \<times> world" where
  "ensure_connection env w =
     (outcome_of (ensure_connection_result env),
      emit (EnsureConnection (ensure_connection_result env)) w)"

text \<open>Lines 45 and 46.\<close>

definition maybe_mark_skips :: "env \<Rightarrow> world \<Rightarrow> (exn + unit) \<times> world" where
  "maybe_mark_skips env w =
     (if environ env ''RUNNING_SPANNER_BACKEND_TESTS'' = Some ''1''
      then mark_skips env w
      else (Inr (), w))"

text \<open>Lines 51 to 59.\<close>

definition action_message :: "env \<Rightarrow> string \<Rightarrow> int \<Rightarrow> string \<Rightarrow> string" where
  "action_message env action verbosity test_database_name =
     action @ '' test database for alias '' @
     get_database_display_str env verbosity test_database_name @ ''...''"

definition log_action :: "env \<Rightarrow> int \<Rightarrow> bool \<Rightarrow> string \<Rightarrow> world \<Rightarrow> (exn + unit) \<times> world" where
  "log_action env verbosity keepdb test_database_name w =
     (if verbosity \<ge> 1
      then (let action = (if keepdb then ''Using existing'' else ''Creating'')
            in (Inr (), log (action_message env action verbosity test_database_name) w))
      else (Inr (), w))"

text \<open>Lines 74 and 75.\<close>

definition maybe_serialize :: "env \<Rightarrow> bool \<Rightarrow> world \<Rightarrow> (exn + unit) \<times> world" where
  "maybe_serialize env serialize w =
     (if serialize
      then and_then (serialize_db_to_string env) set_test_serialized_contents w
      else (Inr (), w))"

definition create_test_db ::
  "env \<Rightarrow> int \<Rightarrow> bool \<Rightarrow> bool \<Rightarrow> bool \<Rightarrow> world \<Rightarrow> (exn + string) \<times> world" where
  "create_test_db env verbosity autoclobber serialize keepdb =
     and_then (maybe_mark_skips env) (\<lambda>_ w.
       let test_database_name = u_get_test_db_name env w in
       and_then (log_action env verbosity keepdb test_database_name) (\<lambda>_.
       and_then (u_create_test_db env verbosity autoclobber keepdb) (\<lambda>_.
       and_then (connection_close env) (\<lambda>_.
       and_then (settings_set_name env test_database_name) (\<lambda>_.
       and_then (connection_set_name test_database_name) (\<lambda>_.
       and_then (maybe_serialize env serialize) (\<lambda>_.
       and_then (call_command env ''createcachetable'' (connection_alias env)) (\<lambda>_.
       and_then (ensure_connection env) (\<lambda>_ w'.
         (Inr test_database_name, w'))))))))) w)"

subsection \<open>Reading a run\<close>

text \<open>
  The events a run added to the trace, the calls among them that went to the database
  service, and the exception an event's collaborator raised, if it raised one.
\<close>

definition new_events :: "world \<Rightarrow> world \<Rightarrow> event list" where
  "new_events w w' = drop (length (trace w)) (trace w')"

definition emits :: "event list \<Rightarrow> world \<Rightarrow> world" where
  "emits evs w = w\<lparr>trace := trace w @ evs\<rparr>"

definition is_service_call :: "event \<Rightarrow> bool" where
  "is_service_call ev = (is_create ev \<or> is_drop ev)"

definition is_creation_event :: "event \<Rightarrow> bool" where
  "is_creation_event ev = (is_log ev \<or> is_create ev \<or> is_drop ev \<or> is_input ev)"

fun is_cachetable :: "event \<Rightarrow> bool" where
  "is_cachetable (CallCommand command database r) = (command = ''createcachetable'')"
| "is_cachetable ev = False"

fun is_close_or_rename :: "event \<Rightarrow> bool" where
  "is_close_or_rename (ConnectionClose r) = True"
| "is_close_or_rename (SettingsSetName a n) = True"
| "is_close_or_rename (ConnectionSetName n) = True"
| "is_close_or_rename ev = False"

fun raised :: "event \<Rightarrow> exn option" where
  "raised (DatabaseCreate n r) = r"
| "raised (DatabaseDrop n r) = r"
| "raised (Input p r) = (case r of Inl e \<Rightarrow> Some e | Inr s \<Rightarrow> None)"
| "raised (ConnectionClose r) = r"
| "raised (SerializeDb r) = (case r of Inl e \<Rightarrow> Some e | Inr s \<Rightarrow> None)"
| "raised (CallCommand c d r) = r"
| "raised (EnsureConnection r) = r"
| "raised ev = None"

text \<open>
  \<open>precedes P Q evs\<close>: no \<open>P\<close> event comes at or after the first \<open>Q\<close> event,
  that is, every \<open>P\<close> event is before every \<open>Q\<close> event.
\<close>

definition precedes :: "(event \<Rightarrow> bool) \<Rightarrow> (event \<Rightarrow> bool) \<Rightarrow> event list \<Rightarrow> bool" where
  "precedes P Q evs = list_all (\<lambda>ev. \<not> P ev) (dropWhile (\<lambda>ev. \<not> Q ev) evs)"




text \<open>Running a test method of a class, when the class has it.\<close>

definition run_test :: "world \<Rightarrow> class_id \<Rightarrow> string \<Rightarrow> exn + test_report" where
  "run_test w c name =
     (case getattr w c name of Inl e \<Rightarrow> Inl e | Inr m \<Rightarrow> Inr (invoke m))"

text \<open>
  \<open>only_adds kind w w'\<close>: the world \<open>w'\<close> has the trace of \<open>w\<close> and, after it,
  events of the given kind only.
\<close>

definition only_adds :: "(event \<Rightarrow> bool) \<Rightarrow> world \<Rightarrow> world \<Rightarrow> bool" where
  "only_adds kind w w' =
     (take (length (trace w)) (trace w') = trace w \<and> list_all kind (new_events w w'))"

subsection \<open>A concrete run\<close>

text \<open>
  One test case \<^verbatim>\<open>app.tests.CaseA\<close> (class 0) with a method \<^verbatim>\<open>test_x\<close>,
  the application \<^verbatim>\<open>app\<close> installed and \<^verbatim>\<open>other\<close> not, a connection
  \<^verbatim>\<open>default\<close> to the database \<^verbatim>\<open>db\<close>. In \<open>env_conflict\<close> the test database
  exists already: the first create is refused, everything after it goes well, and the
  console answers \<^verbatim>\<open>yes\<close>. The variants answer \<^verbatim>\<open>no\<close>, or refuse every
  create.
\<close>

definition world0 :: world where
  "world0 =
     \<lparr>classes = (\<lambda>c. \<lparr>own_attrs = (if c = 0 then [''test_x'' \<mapsto> Original ''body_x'']
                                      else Map.empty),
                        mro_tail = []\<rparr>),
      settings_DATABASES = [''default'' \<mapsto> [''NAME'' \<mapsto> ''db'']],
      settings_dict = [''NAME'' \<mapsto> ''db''],
      test_serialized_contents = None,
      trace = []\<rparr>"

definition env_conflict :: env where
  "env_conflict =
     \<lparr>environ = [''RUNNING_SPANNER_BACKEND_TESTS'' \<mapsto> ''1''],
      skip_tests = [''app.tests.CaseA.test_x'', ''other.tests.CaseB.test_y''],
      INSTALLED_APPS = [''app''],
      import_string = (\<lambda>path. if path = ''app.tests.CaseA'' then Inr 0
                               else Inl (Exception ''ImportError'' path)),
      connection_alias = ''default'',
      get_test_db_name = (\<lambda>d. case d ''NAME'' of Some n \<Rightarrow> ''test_'' @ n | None \<Rightarrow> ''test_''),
      get_database_display_str = (\<lambda>verbosity name. ''default''),
      create_result = (\<lambda>k name. if k = 0 then Some (Exception ''AlreadyExists'' ''409'')
                                  else None),
      drop_result = (\<lambda>k name. None),
      input_result = (\<lambda>k prompt. Inr ''yes''),
      close_result = None,
      serialize_result = Inr ''[]'',
      call_command_result = (\<lambda>command database. None),
      ensure_connection_result = None\<rparr>"

definition env_decline :: env where
  "env_decline = env_conflict\<lparr>input_result := (\<lambda>k prompt. Inr ''no'')\<rparr>"

definition env_refusing :: env where
  "env_refusing =
     env_conflict\<lparr>create_result := (\<lambda>k name. Some (Exception ''Unavailable'' ''503''))\<rparr>"

section \<open>Basic facts\<close>

lemma emit_fields [simp]:
  "trace (emit ev w) = trace w @ [ev]"
  "classes (emit ev w) = classes w"
  "settings_DATABASES (emit ev w) = settings_DATABASES w"
  "settings_dict (emit ev w) = settings_dict w"
  "test_serialized_contents (emit ev w) = test_serialized_contents w"
  by (simp_all add: emit_def)

lemma log_fields [simp]:
  "trace (log msg w) = trace w @ [Log msg]"
  "classes (log msg w) = classes w"
  "settings_DATABASES (log msg w) = settings_DATABASES w"
  "settings_dict (log msg w) = settings_dict w"
  "test_serialized_contents (log msg w) = test_serialized_contents w"
  by (simp_all add: log_def)

lemma count_events_emit [simp]:
  "count_events kind (emit ev w) =
     (if kind ev then Suc (count_events kind w) else count_events kind w)"
  by (simp add: count_events_def)

lemma count_events_log [simp]:
  "count_events kind (log msg w) =
     (if kind (Log msg) then Suc (count_events kind w) else count_events kind w)"
  by (simp add: log_def)

lemma outcome_of_simps [simp]:
  "outcome_of None = Inr ()"
  "outcome_of (Some e) = Inl e"
  by (simp_all add: outcome_of_def)

lemma u_get_test_db_name_emit [simp]:
  "u_get_test_db_name env (emit ev w) = u_get_test_db_name env w"
  "u_get_test_db_name env (log msg w) = u_get_test_db_name env w"
  by (simp_all add: u_get_test_db_name_def)

lemma emits_fields [simp]:
  "trace (emits evs w) = trace w @ evs"
  "classes (emits evs w) = classes w"
  "settings_DATABASES (emits evs w) = settings_DATABASES w"
  "settings_dict (emits evs w) = settings_dict w"
  "test_serialized_contents (emits evs w) = test_serialized_contents w"
  by (simp_all add: emits_def)

lemma emits_Nil [simp]: "emits [] w = w"
  by (simp add: emits_def)

lemma emits_emits [simp]: "emits evs' (emits evs w) = emits (evs @ evs') w"
  by (simp add: emits_def)

lemma emit_emits [simp]: "emit ev (emits evs w) = emits (evs @ [ev]) w"
  by (simp add: emits_def emit_def)

lemma log_emits [simp]: "log msg (emits evs w) = emits (evs @ [Log msg]) w"
  by (simp add: log_def)

lemma emit_is_emits: "emit ev w = emits [ev] w"
  by (simp add: emits_def emit_def)

lemma log_is_emits: "log msg w = emits [Log msg] w"
  by (simp add: log_def emit_is_emits)

lemma count_events_emits [simp]:
  "count_events kind (emits evs w) = count_events kind w + length (filter kind evs)"
  by (simp add: count_events_def)

lemma u_get_test_db_name_emits [simp]:
  "u_get_test_db_name env (emits evs w) = u_get_test_db_name env w"
  by (simp add: u_get_test_db_name_def)

lemma new_events_emits [simp]: "new_events w (emits evs w) = evs"
  by (simp add: new_events_def)

lemma new_events_emit [simp]: "new_events w (emit ev w) = [ev]"
  by (simp add: new_events_def)

lemma new_events_self [simp]: "new_events w w = []"
  by (simp add: new_events_def)

section \<open>The paths of \_create\_test\_db\<close>

lemma execute_create_eq:
  "u_execute_create_test_db env [''dbname'' \<mapsto> n] keepdb w =
     (outcome_of (create_result env (count_events is_create w) n),
      emits [DatabaseCreate n (create_result env (count_events is_create w) n)] w)"
  by (simp add: u_execute_create_test_db_def Let_def emit_is_emits)

lemma destroy_eq:
  "u_destroy_test_db env n verbosity w =
     (outcome_of (drop_result env (count_events is_drop w) n),
      emits [DatabaseDrop n (drop_result env (count_events is_drop w) n)] w)"
  by (simp add: u_destroy_test_db_def Let_def emit_is_emits)

lemma destroy_and_recreate_eq:
  "destroy_and_recreate env verbosity keepdb n [''dbname'' \<mapsto> n] w =
     (case drop_result env (count_events is_drop w) n of
        Some ex \<Rightarrow>
          (Inl ex,
           emits ((if verbosity \<ge> 1 then [Log (destroying_message env verbosity n)] else []) @
                  [DatabaseDrop n (Some ex)]) w)
      | None \<Rightarrow>
          (outcome_of (create_result env (count_events is_create w) n),
           emits ((if verbosity \<ge> 1 then [Log (destroying_message env verbosity n)] else []) @
                  [DatabaseDrop n None,
                   DatabaseCreate n (create_result env (count_events is_create w) n)]) w))"
  by (simp add: destroy_and_recreate_def and_then_def destroy_eq execute_create_eq
        log_is_emits split: option.splits)

lemma ask_confirm_autoclobber:
  "ask_confirm env True n w = (Inr None, w)"
  by (simp add: ask_confirm_def)

lemma ask_confirm_prompt:
  "ask_confirm env False n w =
     (case input_result env (count_events is_input w) (prompt_text n) of
        Inl ex \<Rightarrow> Inl ex
      | Inr answer \<Rightarrow> Inr (Some answer),
      emits [Input (prompt_text n) (input_result env (count_events is_input w) (prompt_text n))] w)"
  by (simp add: ask_confirm_def and_then_def input_def Let_def emit_is_emits split: sum.splits)

text \<open>What the inner try statement makes of the outcome of its body.\<close>

lemma on_create_error_keepdb:
  "on_create_error env verbosity autoclobber True n params e w = (Inr n, w)"
  by (simp add: on_create_error_def)

lemma on_create_error_input_raises:
  assumes "input_result env (count_events is_input w) (prompt_text n) = Inl ex"
  shows "on_create_error env verbosity False False n params e w =
           (Inl ex, emits [Log (create_error_message e), Input (prompt_text n) (Inl ex)] w)"
  using assms
  by (simp add: on_create_error_def and_then_def ask_confirm_prompt log_is_emits)

lemma on_create_error_declined:
  assumes "input_result env (count_events is_input w) (prompt_text n) = Inr answer"
    and "answer \<noteq> ''yes''"
  shows "on_create_error env verbosity False False n params e w =
           (Inl (SystemExit 1),
            emits [Log (create_error_message e), Input (prompt_text n) (Inr answer),
                   Log cancelled_message] w)"
  using assms
  by (simp add: on_create_error_def and_then_def ask_confirm_prompt log_is_emits
        disposition_def)

lemma on_create_error_clobber:
  assumes "autoclobber \<or>
           input_result env (count_events is_input w) (prompt_text n) = Inr ''yes''"
  shows "on_create_error env verbosity autoclobber False n [''dbname'' \<mapsto> n] e w =
           (case destroy_and_recreate env verbosity False n [''dbname'' \<mapsto> n]
                   (emits (Log (create_error_message e) #
                           (if autoclobber then []
                            else [Input (prompt_text n) (Inr ''yes'')])) w) of
              (Inr u, w') \<Rightarrow> (Inr n, w')
            | (Inl (Exception cls e2), w') \<Rightarrow>
                (Inl (SystemExit 2), log (recreate_error_message e2) w')
            | (Inl ex, w') \<Rightarrow> (Inl ex, w'))"
proof (cases autoclobber)
  case True
  then show ?thesis
    by (simp add: on_create_error_def and_then_def ask_confirm_autoclobber log_is_emits
          disposition_def)
next
  case False
  with assms have "input_result env (count_events is_input w) (prompt_text n) = Inr ''yes''"
    by simp
  with False show ?thesis
    by (simp add: on_create_error_def and_then_def ask_confirm_prompt log_is_emits
          disposition_def)
qed


lemma u_create_test_db_eq:
  "u_create_test_db env verbosity autoclobber keepdb w =
     (case create_result env (count_events is_create w) (u_get_test_db_name env w) of
        None \<Rightarrow>
          (Inr (u_get_test_db_name env w),
           emits [DatabaseCreate (u_get_test_db_name env w) None] w)
      | Some (Exception cls e) \<Rightarrow>
          on_create_error env verbosity autoclobber keepdb (u_get_test_db_name env w)
            [''dbname'' \<mapsto> u_get_test_db_name env w] e
            (emits [DatabaseCreate (u_get_test_db_name env w) (Some (Exception cls e))] w)
      | Some ex \<Rightarrow>
          (Inl ex, emits [DatabaseCreate (u_get_test_db_name env w) (Some ex)] w))"
  by (simp add: u_create_test_db_def Let_def execute_create_eq split: option.splits exn.splits)

lemma u_create_created:
  assumes "create_result env (count_events is_create w) (u_get_test_db_name env w) = None"
  shows "u_create_test_db env verbosity autoclobber keepdb w =
           (Inr (u_get_test_db_name env w),
            emits [DatabaseCreate (u_get_test_db_name env w) None] w)"
  using assms by (simp add: u_create_test_db_eq)

lemma u_create_not_caught:
  assumes "create_result env (count_events is_create w) (u_get_test_db_name env w) = Some ex"
    and "\<And>cls e. ex \<noteq> Exception cls e"
  shows "u_create_test_db env verbosity autoclobber keepdb w =
           (Inl ex, emits [DatabaseCreate (u_get_test_db_name env w) (Some ex)] w)"
  using assms by (cases ex) (auto simp: u_create_test_db_eq)

lemma u_create_kept:
  assumes "create_result env (count_events is_create w) (u_get_test_db_name env w) =
             Some (Exception cls e)"
  shows "u_create_test_db env verbosity autoclobber True w =
           (Inr (u_get_test_db_name env w),
            emits [DatabaseCreate (u_get_test_db_name env w) (Some (Exception cls e))] w)"
  using assms by (simp add: u_create_test_db_eq on_create_error_keepdb)

lemma u_create_input_raises:
  assumes "create_result env (count_events is_create w) (u_get_test_db_name env w) =
             Some (Exception cls e)"
    and "input_result env (count_events is_input w) (prompt_text (u_get_test_db_name env w)) =
           Inl ex"
  shows "u_create_test_db env verbosity False False w =
           (Inl ex,
            emits [DatabaseCreate (u_get_test_db_name env w) (Some (Exception cls e)),
                   Log (create_error_message e),
                   Input (prompt_text (u_get_test_db_name env w)) (Inl ex)] w)"
  using assms by (simp add: u_create_test_db_eq on_create_error_input_raises)

lemma u_create_declined:
  assumes "create_result env (count_events is_create w) (u_get_test_db_name env w) =
             Some (Exception cls e)"
    and "input_result env (count_events is_input w) (prompt_text (u_get_test_db_name env w)) =
           Inr answer"
    and "answer \<noteq> ''yes''"
  shows "u_create_test_db env verbosity False False w =
           (Inl (SystemExit 1),
            emits [DatabaseCreate (u_get_test_db_name env w) (Some (Exception cls e)),
                   Log (create_error_message e),
                   Input (prompt_text (u_get_test_db_name env w)) (Inr answer),
                   Log cancelled_message] w)"
  using assms by (simp add: u_create_test_db_eq on_create_error_declined)

text \<open>
  The destroy-and-recreate branch: \<open>pre\<close> is what happened up to the drop, \<open>rd\<close>
  and \<open>rc\<close> are the answers of the service to the drop and to the second create.
\<close>

lemma u_create_clobber:
  assumes c1: "create_result env (count_events is_create w) n = Some (Exception cls e)"
    and n: "n = u_get_test_db_name env w"
    and yes: "autoclobber \<or> input_result env (count_events is_input w) (prompt_text n) = Inr ''yes''"
    and pre: "pre = [DatabaseCreate n (Some (Exception cls e)), Log (create_error_message e)] @
                    (if autoclobber then [] else [Input (prompt_text n) (Inr ''yes'')]) @
                    (if verbosity \<ge> 1 then [Log (destroying_message env verbosity n)] else [])"
    and rd: "rd = drop_result env (count_events is_drop w) n"
    and rc: "rc = create_result env (Suc (count_events is_create w)) n"
  shows "u_create_test_db env verbosity autoclobber False w =
           (case rd of
              Some (Exception cls2 e2) \<Rightarrow>
                (Inl (SystemExit 2),
                 emits (pre @ [DatabaseDrop n rd, Log (recreate_error_message e2)]) w)
            | Some ex \<Rightarrow> (Inl ex, emits (pre @ [DatabaseDrop n rd]) w)
            | None \<Rightarrow>
                (case rc of
                   None \<Rightarrow> (Inr n, emits (pre @ [DatabaseDrop n None, DatabaseCreate n None]) w)
                 | Some (Exception cls2 e2) \<Rightarrow>
                     (Inl (SystemExit 2),
                      emits (pre @ [DatabaseDrop n None, DatabaseCreate n rc,
                                    Log (recreate_error_message e2)]) w)
                 | Some ex \<Rightarrow>
                     (Inl ex, emits (pre @ [DatabaseDrop n None, DatabaseCreate n rc]) w)))"
proof -
  have "u_create_test_db env verbosity autoclobber False w =
          on_create_error env verbosity autoclobber False n [''dbname'' \<mapsto> n] e
            (emits [DatabaseCreate n (Some (Exception cls e))] w)"
    using c1 n by (simp add: u_create_test_db_eq)
  also have "\<dots> =
     (case destroy_and_recreate env verbosity False n [''dbname'' \<mapsto> n]
             (emits ([DatabaseCreate n (Some (Exception cls e)), Log (create_error_message e)] @
                     (if autoclobber then [] else [Input (prompt_text n) (Inr ''yes'')])) w) of
        (Inr u, w') \<Rightarrow> (Inr n, w')
      | (Inl (Exception cls e2), w') \<Rightarrow> (Inl (SystemExit 2), log (recreate_error_message e2) w')
      | (Inl ex, w') \<Rightarrow> (Inl ex, w'))"
    using yes by (subst on_create_error_clobber) simp_all
  also have "\<dots> =
           (case rd of
              Some (Exception cls2 e2) \<Rightarrow>
                (Inl (SystemExit 2),
                 emits (pre @ [DatabaseDrop n rd, Log (recreate_error_message e2)]) w)
            | Some ex \<Rightarrow> (Inl ex, emits (pre @ [DatabaseDrop n rd]) w)
            | None \<Rightarrow>
                (case rc of
                   None \<Rightarrow> (Inr n, emits (pre @ [DatabaseDrop n None, DatabaseCreate n None]) w)
                 | Some (Exception cls2 e2) \<Rightarrow>
                     (Inl (SystemExit 2),
                      emits (pre @ [DatabaseDrop n None, DatabaseCreate n rc,
                                    Log (recreate_error_message e2)]) w)
                 | Some ex \<Rightarrow>
                     (Inl ex, emits (pre @ [DatabaseDrop n None, DatabaseCreate n rc]) w)))"
    unfolding pre rd rc
    by (simp add: destroy_and_recreate_eq split: option.splits exn.splits)
  finally show ?thesis .
qed


text \<open>Every run of \<open>u_create_test_db\<close> takes one of six paths.\<close>

lemma u_create_cases [case_names created not_caught kept input_raises declined clobber]:
  assumes
    created: "create_result env (count_events is_create w) (u_get_test_db_name env w) = None \<Longrightarrow>
       u_create_test_db env verbosity autoclobber keepdb w =
         (Inr (u_get_test_db_name env w),
          emits [DatabaseCreate (u_get_test_db_name env w) None] w) \<Longrightarrow> P"
  and not_caught: "\<And>ex.
       create_result env (count_events is_create w) (u_get_test_db_name env w) = Some ex \<Longrightarrow>
       (\<And>cls e. ex \<noteq> Exception cls e) \<Longrightarrow>
       u_create_test_db env verbosity autoclobber keepdb w =
         (Inl ex, emits [DatabaseCreate (u_get_test_db_name env w) (Some ex)] w) \<Longrightarrow> P"
  and kept: "\<And>cls e.
       keepdb \<Longrightarrow>
       create_result env (count_events is_create w) (u_get_test_db_name env w) =
         Some (Exception cls e) \<Longrightarrow>
       u_create_test_db env verbosity autoclobber keepdb w =
         (Inr (u_get_test_db_name env w),
          emits [DatabaseCreate (u_get_test_db_name env w) (Some (Exception cls e))] w) \<Longrightarrow> P"
  and input_raises: "\<And>cls e ex.
       \<not> keepdb \<Longrightarrow> \<not> autoclobber \<Longrightarrow>
       create_result env (count_events is_create w) (u_get_test_db_name env w) =
         Some (Exception cls e) \<Longrightarrow>
       input_result env (count_events is_input w) (prompt_text (u_get_test_db_name env w)) =
         Inl ex \<Longrightarrow>
       u_create_test_db env verbosity autoclobber keepdb w =
         (Inl ex,
          emits [DatabaseCreate (u_get_test_db_name env w) (Some (Exception cls e)),
                 Log (create_error_message e),
                 Input (prompt_text (u_get_test_db_name env w)) (Inl ex)] w) \<Longrightarrow> P"
  and declined: "\<And>cls e answer.
       \<not> keepdb \<Longrightarrow> \<not> autoclobber \<Longrightarrow>
       create_result env (count_events is_create w) (u_get_test_db_name env w) =
         Some (Exception cls e) \<Longrightarrow>
       input_result env (count_events is_input w) (prompt_text (u_get_test_db_name env w)) =
         Inr answer \<Longrightarrow>
       answer \<noteq> ''yes'' \<Longrightarrow>
       u_create_test_db env verbosity autoclobber keepdb w =
         (Inl (SystemExit 1),
          emits [DatabaseCreate (u_get_test_db_name env w) (Some (Exception cls e)),
                 Log (create_error_message e),
                 Input (prompt_text (u_get_test_db_name env w)) (Inr answer),
                 Log cancelled_message] w) \<Longrightarrow> P"
  and clobber: "\<And>cls e.
       \<not> keepdb \<Longrightarrow>
       create_result env (count_events is_create w) (u_get_test_db_name env w) =
         Some (Exception cls e) \<Longrightarrow>
       autoclobber \<or>
       input_result env (count_events is_input w) (prompt_text (u_get_test_db_name env w)) =
         Inr ''yes'' \<Longrightarrow> P"
  shows P
proof (cases "create_result env (count_events is_create w) (u_get_test_db_name env w)")
  case None
  then show P by (rule created) (rule u_create_created [OF None])
next
  case (Some ex)
  show P
  proof (cases ex)
    case (Exception cls e)
    with Some have c1: "create_result env (count_events is_create w) (u_get_test_db_name env w) =
         Some (Exception cls e)" by simp
    show P
    proof (cases keepdb)
      case True
      from True c1 u_create_kept [OF c1, of verbosity autoclobber] show P
        by (intro kept) simp_all
    next
      case nk: False
      show P
      proof (cases autoclobber)
        case True
        with nk c1 show P by (intro clobber) simp_all
      next
        case na: False
        show P
        proof (cases "input_result env (count_events is_input w)
                        (prompt_text (u_get_test_db_name env w))")
          case (Inl ex')
          from nk na c1 Inl u_create_input_raises [OF c1 Inl, of verbosity] show P
            by (intro input_raises) simp_all
        next
          case (Inr answer)
          show P
          proof (cases "answer = ''yes''")
            case True
            with nk c1 Inr show P by (intro clobber) simp_all
          next
            case False
            from nk na c1 Inr False u_create_declined [OF c1 Inr False, of verbosity] show P
              by (intro declined) simp_all
          qed
        qed
      qed
    qed
  next
    case (SystemExit k)
    with Some show P
      by (intro not_caught [of ex] u_create_not_caught) simp_all
  next
    case KeyboardInterrupt
    with Some show P
      by (intro not_caught [of ex] u_create_not_caught) simp_all
  qed
qed

section \<open>The prompt and the two exits\<close>

lemma prompt_paths:
  assumes c1: "create_result env (count_events is_create w) (u_get_test_db_name env w) =
             Some (Exception cls e)"
    and inp: "input_result env (count_events is_input w)
           (prompt_text (u_get_test_db_name env w)) = Inr answer"
  shows "take 3 (new_events w (snd (u_create_test_db env verbosity False False w))) =
           [DatabaseCreate (u_get_test_db_name env w) (Some (Exception cls e)),
            Log (create_error_message e),
            Input (prompt_text (u_get_test_db_name env w)) (Inr answer)]
       \<and> (answer = ''yes'' \<longrightarrow>
            filter is_service_call (new_events w (snd (u_create_test_db env verbosity False False w))) =
              [DatabaseCreate (u_get_test_db_name env w) (Some (Exception cls e)),
               DatabaseDrop (u_get_test_db_name env w)
                 (drop_result env (count_events is_drop w) (u_get_test_db_name env w))] @
              (if drop_result env (count_events is_drop w) (u_get_test_db_name env w) = None
               then [DatabaseCreate (u_get_test_db_name env w)
                       (create_result env (Suc (count_events is_create w))
                          (u_get_test_db_name env w))]
               else []))
       \<and> (answer \<noteq> ''yes'' \<longrightarrow>
            fst (u_create_test_db env verbosity False False w) = Inl (SystemExit 1) \<and>
            filter is_drop (new_events w (snd (u_create_test_db env verbosity False False w))) = [])"
proof (cases "answer = ''yes''")
  case True
  with inp have "False \<or> input_result env (count_events is_input w)
      (prompt_text (u_get_test_db_name env w)) = Inr ''yes''"
    by simp
  from u_create_clobber [OF c1 refl this refl refl refl, of verbosity] True
  show ?thesis
    by (simp add: is_service_call_def split: option.splits exn.splits)
next
  case False
  from u_create_declined [OF c1 inp False, of verbosity] False
  show ?thesis by simp
qed

text \<open>
  C1. When \<open>_create_test_db\<close> runs with \<open>autoclobber\<close> and \<open>keepdb\<close> false and
  the first create raises an exception, the third thing it does, after the create and the
  log of the error, is to prompt with the text
  \<^verbatim>\<open>Type 'yes' if you would like to try deleting the test database '<name>', or 'no' to cancel: \<close>.
  When the console answers \<^verbatim>\<open>yes\<close>, the calls to the service are the failed
  create, the drop and, if the drop returns, a second create. On every other answer the
  method leaves with \<^verbatim>\<open>SystemExit(1)\<close> and no drop is made.
\<close>

theorem prompt_only_yes_clobbers:
  assumes "create_result env (count_events is_create w) (u_get_test_db_name env w) =
             Some (Exception cls e)"
    and "input_result env (count_events is_input w)
           (''Type 'yes' if you would like to try deleting the test database '' @ [CHR 0x27] @
            u_get_test_db_name env w @ [CHR 0x27] @ '', or 'no' to cancel: '') = Inr answer"
  shows "take 3 (new_events w (snd (u_create_test_db env verbosity False False w))) =
           [DatabaseCreate (u_get_test_db_name env w) (Some (Exception cls e)),
            Log (create_error_message e),
            Input (''Type 'yes' if you would like to try deleting the test database '' @
                   [CHR 0x27] @ u_get_test_db_name env w @ [CHR 0x27] @
                   '', or 'no' to cancel: '')
                  (Inr answer)]
       \<and> (answer = ''yes'' \<longrightarrow>
            filter is_service_call (new_events w (snd (u_create_test_db env verbosity False False w))) =
              [DatabaseCreate (u_get_test_db_name env w) (Some (Exception cls e)),
               DatabaseDrop (u_get_test_db_name env w)
                 (drop_result env (count_events is_drop w) (u_get_test_db_name env w))] @
              (if drop_result env (count_events is_drop w) (u_get_test_db_name env w) = None
               then [DatabaseCreate (u_get_test_db_name env w)
                       (create_result env (Suc (count_events is_create w))
                          (u_get_test_db_name env w))]
               else []))
       \<and> (answer \<noteq> ''yes'' \<longrightarrow>
            fst (u_create_test_db env verbosity False False w) = Inl (SystemExit 1) \<and>
            filter is_drop (new_events w (snd (u_create_test_db env verbosity False False w))) = [])"
  using assms unfolding prompt_text_def [symmetric]
  by (rule prompt_paths)

theorem prompt_only_yes_clobbers_witness:
  "create_result env_decline (count_events is_create world0)
     (u_get_test_db_name env_decline world0) = Some (Exception ''AlreadyExists'' ''409'')
   \<and> fst (u_create_test_db env_decline 1 False False world0) = Inl (SystemExit 1)
   \<and> filter is_drop (new_events world0 (snd (u_create_test_db env_decline 1 False False world0))) = []
   \<and> filter is_service_call
         (new_events world0 (snd (u_create_test_db env_conflict 1 False False world0))) =
       [DatabaseCreate ''test_db'' (Some (Exception ''AlreadyExists'' ''409'')),
        DatabaseDrop ''test_db'' None, DatabaseCreate ''test_db'' None]"
proof -
  have n1: "u_get_test_db_name env_decline world0 = ''test_db''"
    and n2: "u_get_test_db_name env_conflict world0 = ''test_db''"
    by (simp_all add: u_get_test_db_name_def env_decline_def env_conflict_def world0_def)
  have k: "count_events kind world0 = 0" for kind
    by (simp add: count_events_def world0_def)
  have c1: "create_result env_decline (count_events is_create world0)
              (u_get_test_db_name env_decline world0) = Some (Exception ''AlreadyExists'' ''409'')"
    by (simp add: k env_decline_def env_conflict_def)
  have i1: "input_result env_decline (count_events is_input world0)
              (''Type 'yes' if you would like to try deleting the test database '' @ [CHR 0x27] @
               u_get_test_db_name env_decline world0 @ [CHR 0x27] @ '', or 'no' to cancel: '') =
            Inr ''no''"
    by (simp add: env_decline_def)
  have c2: "create_result env_conflict (count_events is_create world0)
              (u_get_test_db_name env_conflict world0) = Some (Exception ''AlreadyExists'' ''409'')"
    by (simp add: k env_conflict_def)
  have i2: "input_result env_conflict (count_events is_input world0)
              (''Type 'yes' if you would like to try deleting the test database '' @ [CHR 0x27] @
               u_get_test_db_name env_conflict world0 @ [CHR 0x27] @ '', or 'no' to cancel: '') =
            Inr ''yes''"
    by (simp add: env_conflict_def)
  have no: "fst (u_create_test_db env_decline 1 False False world0) = Inl (SystemExit 1) \<and>
        filter is_drop (new_events world0 (snd (u_create_test_db env_decline 1 False False world0))) = []"
    using prompt_only_yes_clobbers [OF c1 i1, of 1] by simp
  have yes: "filter is_service_call
         (new_events world0 (snd (u_create_test_db env_conflict 1 False False world0))) =
       [DatabaseCreate ''test_db'' (Some (Exception ''AlreadyExists'' ''409'')),
        DatabaseDrop ''test_db'' None, DatabaseCreate ''test_db'' None]"
    using prompt_only_yes_clobbers [OF c2 i2, of 1]
    by (simp add: n2 k) (simp add: env_conflict_def)
  from c1 no yes show ?thesis by simp
qed

lemma is_service_call_simps:
  "is_service_call (DatabaseCreate n r)"
  "is_service_call (DatabaseDrop n r)"
  "\<not> is_service_call (Log s)"
  "\<not> is_service_call (Input p a)"
  by (simp_all add: is_service_call_def)

text \<open>
  C2. A run of \<open>_create_test_db\<close> whose calls to the service begin with a create that
  raised, a drop that returned and a second create that raised an exception leaves with
  \<^verbatim>\<open>SystemExit(2)\<close>, and these three calls are all its calls: one drop, no third
  create. Such a run has \<open>keepdb\<close> false and an affirmative disposition
  (\<open>autoclobber\<close>, or the answer \<^verbatim>\<open>yes\<close> to the prompt).
\<close>

theorem recreate_failure_exits_2:
  assumes calls: "take 3 (filter is_service_call
             (new_events w (snd (u_create_test_db env verbosity autoclobber keepdb w)))) =
           [DatabaseCreate n1 (Some ex1), DatabaseDrop n2 None,
            DatabaseCreate n3 (Some (Exception cls e))]"
  shows "fst (u_create_test_db env verbosity autoclobber keepdb w) = Inl (SystemExit 2)
       \<and> filter is_service_call
             (new_events w (snd (u_create_test_db env verbosity autoclobber keepdb w))) =
           [DatabaseCreate n1 (Some ex1), DatabaseDrop n2 None,
            DatabaseCreate n3 (Some (Exception cls e))]
       \<and> length (filter is_drop
             (new_events w (snd (u_create_test_db env verbosity autoclobber keepdb w)))) = 1
       \<and> \<not> keepdb
       \<and> (autoclobber \<or>
            Input (prompt_text (u_get_test_db_name env w)) (Inr ''yes'') \<in>
              set (new_events w (snd (u_create_test_db env verbosity autoclobber keepdb w))))"
proof (cases rule: u_create_cases [of env w verbosity autoclobber keepdb])
  case created
  with calls show ?thesis by (simp add: is_service_call_simps)
next
  case (not_caught ex)
  with calls show ?thesis by (simp add: is_service_call_simps)
next
  case (kept cls e)
  with calls show ?thesis by (simp add: is_service_call_simps)
next
  case (input_raises cls e ex)
  with calls show ?thesis by (simp add: is_service_call_simps)
next
  case (declined cls e answer)
  with calls show ?thesis by (simp add: is_service_call_simps)
next
  case (clobber cls1 e1)
  from u_create_clobber [OF clobber(2) refl clobber(3) refl refl refl, of verbosity] clobber(1) calls
  show ?thesis
    by (simp add: is_service_call_simps split: option.splits exn.splits if_splits)
qed


theorem recreate_failure_exits_2_witness:
  "take 3 (filter is_service_call
      (new_events world0 (snd (u_create_test_db env_refusing 1 True False world0)))) =
     [DatabaseCreate ''test_db'' (Some (Exception ''Unavailable'' ''503'')),
      DatabaseDrop ''test_db'' None,
      DatabaseCreate ''test_db'' (Some (Exception ''Unavailable'' ''503''))]
   \<and> fst (u_create_test_db env_refusing 1 True False world0) = Inl (SystemExit 2)
   \<and> length (filter is_drop
        (new_events world0 (snd (u_create_test_db env_refusing 1 True False world0)))) = 1"
proof -
  have n: "u_get_test_db_name env_refusing world0 = ''test_db''"
    by (simp add: u_get_test_db_name_def env_refusing_def env_conflict_def world0_def)
  have k: "count_events kind world0 = 0" for kind
    by (simp add: count_events_def world0_def)
  have c: "create_result env_refusing i name = Some (Exception ''Unavailable'' ''503'')"
    and d: "drop_result env_refusing i name = None" for i name
    by (simp_all add: env_refusing_def env_conflict_def)
  have calls: "take 3 (filter is_service_call
      (new_events world0 (snd (u_create_test_db env_refusing 1 True False world0)))) =
     [DatabaseCreate ''test_db'' (Some (Exception ''Unavailable'' ''503'')),
      DatabaseDrop ''test_db'' None,
      DatabaseCreate ''test_db'' (Some (Exception ''Unavailable'' ''503''))]"
    by (simp add: u_create_test_db_eq on_create_error_clobber destroy_and_recreate_eq
          is_service_call_simps n k c d)
  from recreate_failure_exits_2 [OF calls] calls show ?thesis by simp
qed

section \<open>What a run adds to the trace\<close>

lemma only_adds_iff:
  "only_adds kind w w' \<longleftrightarrow> (\<exists>evs. trace w' = trace w @ evs \<and> list_all kind evs)"
proof
  assume a: "only_adds kind w w'"
  have "trace w' = take (length (trace w)) (trace w') @ drop (length (trace w)) (trace w')"
    by simp
  with a have "trace w' = trace w @ new_events w w'"
    by (simp add: only_adds_def new_events_def)
  with a show "\<exists>evs. trace w' = trace w @ evs \<and> list_all kind evs"
    by (auto simp: only_adds_def)
next
  assume "\<exists>evs. trace w' = trace w @ evs \<and> list_all kind evs"
  then show "only_adds kind w w'"
    by (auto simp: only_adds_def new_events_def)
qed

lemma only_adds_refl [simp]: "only_adds kind w w"
  by (simp add: only_adds_iff)

lemma only_adds_emits [simp]: "only_adds kind w (emits evs w) = list_all kind evs"
  by (simp add: only_adds_iff)

lemma only_adds_emit [simp]: "only_adds kind w (emit ev w) = kind ev"
  by (simp add: only_adds_iff)

lemma only_adds_log [simp]: "only_adds kind w (log msg w) = kind (Log msg)"
  by (simp add: only_adds_iff)

lemma only_adds_trans:
  "only_adds kind w w1 \<Longrightarrow> only_adds kind w1 w2 \<Longrightarrow> only_adds kind w w2"
  by (auto simp: only_adds_iff)

lemma only_adds_mono:
  "only_adds kind w w' \<Longrightarrow> (\<And>ev. kind ev \<Longrightarrow> kind' ev) \<Longrightarrow> only_adds kind' w w'"
  by (auto simp: only_adds_iff list_all_iff)

lemma only_adds_new_events: "only_adds kind w w' \<Longrightarrow> list_all kind (new_events w w')"
  by (simp add: only_adds_def)

lemma only_adds_none:
  "only_adds (\<lambda>ev. \<not> kind ev) w w' \<Longrightarrow> filter kind (new_events w w') = []"
  by (simp add: only_adds_def list_all_iff filter_empty_conv)

lemma new_events_trans:
  "only_adds kind w w1 \<Longrightarrow> only_adds kind' w1 w2 \<Longrightarrow>
   new_events w w2 = new_events w w1 @ new_events w1 w2"
  by (auto simp: only_adds_iff new_events_def)

lemma only_adds_and_then:
  assumes "only_adds kind w (snd (m w))"
    and "\<And>v w1. only_adds kind w1 (snd (f v w1))"
  shows "only_adds kind w (snd (and_then m f w))"
proof (cases "m w")
  case (Pair r w1)
  show ?thesis
  proof (cases r)
    case (Inl e)
    with Pair assms(1) show ?thesis by (simp add: and_then_def)
  next
    case (Inr v)
    with Pair assms(1) assms(2) [of w1 v] show ?thesis
      by (auto simp: and_then_def intro: only_adds_trans)
  qed
qed

lemma u_create_events:
  "\<exists>evs. snd (u_create_test_db env verbosity autoclobber keepdb w) = emits evs w \<and>
         list_all is_creation_event evs \<and>
         (keepdb \<longrightarrow> list_all is_create evs) \<and>
         (autoclobber \<longrightarrow> list_all (\<lambda>ev. \<not> is_input ev) evs)"
proof (cases rule: u_create_cases [of env w verbosity autoclobber keepdb])
  case created
  then show ?thesis by (auto simp: is_creation_event_def)
next
  case (not_caught ex)
  then show ?thesis by (auto simp: is_creation_event_def)
next
  case (kept cls e)
  then show ?thesis by (auto simp: is_creation_event_def)
next
  case (input_raises cls e ex)
  then show ?thesis by (auto simp: is_creation_event_def)
next
  case (declined cls e answer)
  then show ?thesis by (auto simp: is_creation_event_def)
next
  case (clobber cls e)
  from u_create_clobber [OF clobber(2) refl clobber(3) refl refl refl, of verbosity] clobber(1)
  show ?thesis
    by (auto simp: is_creation_event_def split: option.splits exn.splits)
qed


lemma setattr_fields [simp]:
  "trace (setattr c n m w) = trace w @ [SetAttr c n m]"
  "settings_DATABASES (setattr c n m w) = settings_DATABASES w"
  "settings_dict (setattr c n m w) = settings_dict w"
  "test_serialized_contents (setattr c n m w) = test_serialized_contents w"
  by (simp_all add: setattr_def)

lemma mark_skip_world:
  "snd (mark_skip env t w) = w \<or> (\<exists>c n m. snd (mark_skip env t w) = setattr c n m w)"
  by (auto simp: mark_skip_def Let_def split: prod.splits sum.splits)

lemma mark_skip_frame:
  "only_adds is_setattr w (snd (mark_skip env t w)) \<and>
   settings_dict (snd (mark_skip env t w)) = settings_dict w \<and>
   settings_DATABASES (snd (mark_skip env t w)) = settings_DATABASES w \<and>
   test_serialized_contents (snd (mark_skip env t w)) = test_serialized_contents w"
  using mark_skip_world [of env t w] by (auto simp: only_adds_iff)

lemma mark_skips_loop_frame:
  "only_adds is_setattr w (snd (mark_skips_loop env ts w)) \<and>
   settings_dict (snd (mark_skips_loop env ts w)) = settings_dict w \<and>
   settings_DATABASES (snd (mark_skips_loop env ts w)) = settings_DATABASES w \<and>
   test_serialized_contents (snd (mark_skips_loop env ts w)) = test_serialized_contents w"
proof (induction ts arbitrary: w)
  case Nil
  show ?case by simp
next
  case (Cons t ts)
  obtain r w1 where step: "mark_skip env t w = (r, w1)"
    by (cases "mark_skip env t w")
  with mark_skip_frame [of w env t]
  have f1: "only_adds is_setattr w w1" "settings_dict w1 = settings_dict w"
    "settings_DATABASES w1 = settings_DATABASES w"
    "test_serialized_contents w1 = test_serialized_contents w"
    by simp_all
  show ?case
  proof (cases r)
    case (Inl e)
    with step f1 show ?thesis by simp
  next
    case (Inr u)
    with step f1 Cons.IH [of w1] show ?thesis
      by (auto intro: only_adds_trans)
  qed
qed

lemma maybe_mark_skips_frame:
  "only_adds is_setattr w (snd (maybe_mark_skips env w)) \<and>
   settings_dict (snd (maybe_mark_skips env w)) = settings_dict w \<and>
   settings_DATABASES (snd (maybe_mark_skips env w)) = settings_DATABASES w \<and>
   test_serialized_contents (snd (maybe_mark_skips env w)) = test_serialized_contents w"
  using mark_skips_loop_frame [of w env "skip_tests env"]
  by (simp add: maybe_mark_skips_def mark_skips_def)

lemmas step_defs =
  log_action_def connection_close_def settings_set_name_def connection_set_name_def
  maybe_serialize_def serialize_db_to_string_def set_test_serialized_contents_def
  call_command_def ensure_connection_def

lemma create_test_db_only_adds:
  assumes rest: "\<And>ev. \<not> is_drop ev \<Longrightarrow> \<not> is_input ev \<Longrightarrow> kind ev"
    and inner: "\<And>w1. only_adds kind w1 (snd (u_create_test_db env verbosity autoclobber keepdb w1))"
  shows "only_adds kind w (snd (create_test_db env verbosity autoclobber serialize keepdb w))"
proof -
  have k: "kind ev" if "is_setattr ev" for ev
    using that by (cases ev) (auto intro: rest)
  have skips: "only_adds kind w1 (snd (maybe_mark_skips env w1))" for w1
    using maybe_mark_skips_frame [of w1 env] k
    by (blast intro: only_adds_mono)
  show ?thesis
    unfolding create_test_db_def Let_def
    by (intro only_adds_and_then skips inner)
       (auto simp: step_defs and_then_def Let_def only_adds_iff rest split: option.splits sum.splits)
qed


section \<open>keepdb and autoclobber\<close>

text \<open>
  C3. With \<open>keepdb\<close> true no drop is made, neither by \<open>_create_test_db\<close> nor by
  \<open>create_test_db\<close>, whatever the collaborators do. If the create raises an
  exception, whatever its class and message, \<open>_create_test_db\<close> returns the name of the
  test database, and the failed create is all that happened: nothing is logged, nothing is
  asked, no exit is taken.
\<close>

theorem keepdb_never_destroys:
  "filter is_drop (new_events w (snd (u_create_test_db env verbosity autoclobber True w))) = []
   \<and> filter is_drop
         (new_events w (snd (create_test_db env verbosity autoclobber serialize True w))) = []
   \<and> (create_result env (count_events is_create w) (u_get_test_db_name env w) =
          Some (Exception cls e) \<longrightarrow>
        u_create_test_db env verbosity autoclobber True w =
          (Inr (u_get_test_db_name env w),
           emits [DatabaseCreate (u_get_test_db_name env w) (Some (Exception cls e))] w))"
proof -
  have inner: "only_adds (\<lambda>ev. \<not> is_drop ev) w1
                 (snd (u_create_test_db env verbosity autoclobber True w1))" for w1
  proof -
    from u_create_events [of env verbosity autoclobber True w1]
    obtain evs where "snd (u_create_test_db env verbosity autoclobber True w1) = emits evs w1"
      and "list_all is_create evs"
      by auto
    moreover have "\<not> is_drop ev" if "is_create ev" for ev
      using that by (cases ev) simp_all
    ultimately show ?thesis
      by (auto simp: list_all_iff)
  qed
  have "only_adds (\<lambda>ev. \<not> is_drop ev) w
          (snd (create_test_db env verbosity autoclobber serialize True w))"
    by (rule create_test_db_only_adds) (simp_all add: inner)
  with inner [of w] show ?thesis
    by (auto dest: only_adds_none simp: u_create_kept)
qed

theorem keepdb_never_destroys_witness:
  "create_result env_refusing (count_events is_create world0)
     (u_get_test_db_name env_refusing world0) = Some (Exception ''Unavailable'' ''503'')
   \<and> u_create_test_db env_refusing 1 False True world0 =
       (Inr ''test_db'',
        emits [DatabaseCreate ''test_db'' (Some (Exception ''Unavailable'' ''503''))] world0)"
proof -
  have n: "u_get_test_db_name env_refusing world0 = ''test_db''"
    by (simp add: u_get_test_db_name_def env_refusing_def env_conflict_def world0_def)
  have c: "create_result env_refusing (count_events is_create world0)
             (u_get_test_db_name env_refusing world0) = Some (Exception ''Unavailable'' ''503'')"
    by (simp add: env_refusing_def env_conflict_def)
  from keepdb_never_destroys [of world0 env_refusing 1 False True "''Unavailable''" "''503''"] c
  show ?thesis by (simp add: n)
qed

text \<open>
  C4. With \<open>autoclobber\<close> true nothing is read from the console, neither by
  \<open>_create_test_db\<close> nor by \<open>create_test_db\<close>, whatever the collaborators do. When
  the create raises an exception and \<open>keepdb\<close> is false, the error is logged and the
  next call is the drop, with only the line that announces it in between; the calls to
  the service are the failed create, the drop and, if the drop returns, the second
  create, at every verbosity; and when the drop and the second create both return, the
  method returns the name of the test database.
\<close>

theorem autoclobber_never_prompts:
  "filter is_input (new_events w (snd (u_create_test_db env verbosity True keepdb w))) = []
   \<and> filter is_input
         (new_events w (snd (create_test_db env verbosity True serialize keepdb w))) = []
   \<and> (\<not> keepdb \<and>
        create_result env (count_events is_create w) (u_get_test_db_name env w) =
          Some (Exception cls e) \<longrightarrow>
        take (if verbosity \<ge> 1 then 4 else 3)
          (new_events w (snd (u_create_test_db env verbosity True keepdb w))) =
          [DatabaseCreate (u_get_test_db_name env w) (Some (Exception cls e)),
           Log (create_error_message e)] @
          (if verbosity \<ge> 1
           then [Log (destroying_message env verbosity (u_get_test_db_name env w))] else []) @
          [DatabaseDrop (u_get_test_db_name env w)
             (drop_result env (count_events is_drop w) (u_get_test_db_name env w))]
        \<and> filter is_service_call
            (new_events w (snd (u_create_test_db env verbosity True keepdb w))) =
            [DatabaseCreate (u_get_test_db_name env w) (Some (Exception cls e)),
             DatabaseDrop (u_get_test_db_name env w)
               (drop_result env (count_events is_drop w) (u_get_test_db_name env w))] @
            (if drop_result env (count_events is_drop w) (u_get_test_db_name env w) = None
             then [DatabaseCreate (u_get_test_db_name env w)
                     (create_result env (Suc (count_events is_create w))
                        (u_get_test_db_name env w))]
             else [])
        \<and> (drop_result env (count_events is_drop w) (u_get_test_db_name env w) = None \<and>
            create_result env (Suc (count_events is_create w)) (u_get_test_db_name env w) = None
            \<longrightarrow>
            u_create_test_db env verbosity True keepdb w =
              (Inr (u_get_test_db_name env w),
               emits ([DatabaseCreate (u_get_test_db_name env w) (Some (Exception cls e)),
                       Log (create_error_message e)] @
                      (if verbosity \<ge> 1
                       then [Log (destroying_message env verbosity (u_get_test_db_name env w))]
                       else []) @
                      [DatabaseDrop (u_get_test_db_name env w) None,
                       DatabaseCreate (u_get_test_db_name env w) None]) w)))"
proof -
  have inner: "only_adds (\<lambda>ev. \<not> is_input ev) w1
                 (snd (u_create_test_db env verbosity True keepdb w1))" for w1
    using u_create_events [of env verbosity True keepdb w1] by auto
  have outer: "only_adds (\<lambda>ev. \<not> is_input ev) w
          (snd (create_test_db env verbosity True serialize keepdb w))"
    by (rule create_test_db_only_adds) (simp_all add: inner)
  have yes: "True \<or> input_result env (count_events is_input w)
                 (prompt_text (u_get_test_db_name env w)) = Inr ''yes''"
    by simp
  have direct: "take (if verbosity \<ge> 1 then 4 else 3)
          (new_events w (snd (u_create_test_db env verbosity True keepdb w))) =
          [DatabaseCreate (u_get_test_db_name env w) (Some (Exception cls e)),
           Log (create_error_message e)] @
          (if verbosity \<ge> 1
           then [Log (destroying_message env verbosity (u_get_test_db_name env w))] else []) @
          [DatabaseDrop (u_get_test_db_name env w)
             (drop_result env (count_events is_drop w) (u_get_test_db_name env w))]"
    if nk: "\<not> keepdb"
      and c: "create_result env (count_events is_create w) (u_get_test_db_name env w) =
                Some (Exception cls e)"
    using u_create_clobber [OF c refl yes refl refl refl, of verbosity] nk by (simp split: option.splits exn.splits)
  have calls: "filter is_service_call
            (new_events w (snd (u_create_test_db env verbosity True keepdb w))) =
            [DatabaseCreate (u_get_test_db_name env w) (Some (Exception cls e)),
             DatabaseDrop (u_get_test_db_name env w)
               (drop_result env (count_events is_drop w) (u_get_test_db_name env w))] @
            (if drop_result env (count_events is_drop w) (u_get_test_db_name env w) = None
             then [DatabaseCreate (u_get_test_db_name env w)
                     (create_result env (Suc (count_events is_create w))
                        (u_get_test_db_name env w))]
             else [])"
    if nk: "\<not> keepdb"
      and c: "create_result env (count_events is_create w) (u_get_test_db_name env w) =
                Some (Exception cls e)"
    using u_create_clobber [OF c refl yes refl refl refl, of verbosity] nk
    by (simp add: is_service_call_simps split: option.splits exn.splits)
  have recreated: "u_create_test_db env verbosity True keepdb w =
              (Inr (u_get_test_db_name env w),
               emits ([DatabaseCreate (u_get_test_db_name env w) (Some (Exception cls e)),
                       Log (create_error_message e)] @
                      (if verbosity \<ge> 1
                       then [Log (destroying_message env verbosity (u_get_test_db_name env w))]
                       else []) @
                      [DatabaseDrop (u_get_test_db_name env w) None,
                       DatabaseCreate (u_get_test_db_name env w) None]) w)"
    if nk: "\<not> keepdb"
      and c: "create_result env (count_events is_create w) (u_get_test_db_name env w) =
                Some (Exception cls e)"
      and d: "drop_result env (count_events is_drop w) (u_get_test_db_name env w) = None"
      and c2: "create_result env (Suc (count_events is_create w)) (u_get_test_db_name env w) =
                 None"
    using u_create_clobber [OF c refl yes refl refl refl, of verbosity] nk d c2 by simp
  from inner [of w] outer direct calls recreated show ?thesis
    by (auto dest: only_adds_none)
qed

theorem autoclobber_never_prompts_witness:
  "create_result env_conflict (count_events is_create world0)
     (u_get_test_db_name env_conflict world0) = Some (Exception ''AlreadyExists'' ''409'')
   \<and> take 4 (new_events world0 (snd (u_create_test_db env_conflict 1 True False world0))) =
       [DatabaseCreate ''test_db'' (Some (Exception ''AlreadyExists'' ''409'')),
        Log (create_error_message ''409''),
        Log (destroying_message env_conflict 1 ''test_db''),
        DatabaseDrop ''test_db'' None]
   \<and> filter is_service_call
        (new_events world0 (snd (u_create_test_db env_conflict 0 True False world0))) =
       [DatabaseCreate ''test_db'' (Some (Exception ''AlreadyExists'' ''409'')),
        DatabaseDrop ''test_db'' None, DatabaseCreate ''test_db'' None]
   \<and> fst (u_create_test_db env_conflict 0 True False world0) = Inr ''test_db''"
proof -
  have n: "u_get_test_db_name env_conflict world0 = ''test_db''"
    by (simp add: u_get_test_db_name_def env_conflict_def world0_def)
  have k: "count_events kind world0 = 0" for kind
    by (simp add: count_events_def world0_def)
  have c: "create_result env_conflict (count_events is_create world0)
             (u_get_test_db_name env_conflict world0) = Some (Exception ''AlreadyExists'' ''409'')"
    by (simp add: k env_conflict_def)
  have d: "drop_result env_conflict i name = None" for i name
    by (simp add: env_conflict_def)
  have c2: "create_result env_conflict (Suc (count_events is_create world0))
              (u_get_test_db_name env_conflict world0) = None"
    by (simp add: k env_conflict_def)
  from autoclobber_never_prompts
         [of world0 env_conflict 1 False serialize "''AlreadyExists''" "''409''"] c
  have loud: "take 4 (new_events world0 (snd (u_create_test_db env_conflict 1 True False world0))) =
       [DatabaseCreate ''test_db'' (Some (Exception ''AlreadyExists'' ''409'')),
        Log (create_error_message ''409''),
        Log (destroying_message env_conflict 1 ''test_db''),
        DatabaseDrop ''test_db'' None]"
    by (simp add: n d)
  from autoclobber_never_prompts
         [of world0 env_conflict 0 False serialize "''AlreadyExists''" "''409''"] c c2
  have quiet: "filter is_service_call
        (new_events world0 (snd (u_create_test_db env_conflict 0 True False world0))) =
       [DatabaseCreate ''test_db'' (Some (Exception ''AlreadyExists'' ''409'')),
        DatabaseDrop ''test_db'' None, DatabaseCreate ''test_db'' None]
     \<and> fst (u_create_test_db env_conflict 0 True False world0) = Inr ''test_db''"
    by (simp add: n d is_service_call_simps)
  from c loud quiet show ?thesis by simp
qed

section \<open>The local variable confirm\<close>

text \<open>
  C10. Reading \<^verbatim>\<open>confirm\<close> while nothing is assigned to it would raise
  (\<open>disposition False None\<close>), but line 107 is never reached in that state: whenever
  lines 102 to 106 complete, for either value of \<open>autoclobber\<close> and any answer of the
  console, the condition of line 107 evaluates to a truth value, which is
  \<open>autoclobber \<or> confirm = "yes"\<close>. Accordingly an exception that leaves
  \<open>_create_test_db\<close> is one of the two exits or was raised by a collaborator the
  method called.
\<close>

theorem confirm_read_only_when_assigned:
  "(ask_confirm env autoclobber n w = (Inr confirm, w') \<longrightarrow>
      disposition autoclobber confirm = Inr (autoclobber \<or> confirm = Some ''yes''))
   \<and> disposition False None = Inl unbound_confirm
   \<and> (fst (u_create_test_db env verbosity autoclobber keepdb w) = Inl ex \<longrightarrow>
        ex = SystemExit 1 \<or> ex = SystemExit 2 \<or>
        (\<exists>ev \<in> set (new_events w (snd (u_create_test_db env verbosity autoclobber keepdb w))).
           raised ev = Some ex))"
proof -
  have line107: "disposition autoclobber confirm = Inr (autoclobber \<or> confirm = Some ''yes'')"
    if "ask_confirm env autoclobber n w = (Inr confirm, w')"
  proof (cases autoclobber)
    case True
    then show ?thesis by (simp add: disposition_def)
  next
    case False
    with that show ?thesis
      by (auto simp: ask_confirm_prompt disposition_def split: sum.splits)
  qed
  have leaves: "ex = SystemExit 1 \<or> ex = SystemExit 2 \<or>
        (\<exists>ev \<in> set (new_events w (snd (u_create_test_db env verbosity autoclobber keepdb w))).
           raised ev = Some ex)"
    if out: "fst (u_create_test_db env verbosity autoclobber keepdb w) = Inl ex"
  proof (cases rule: u_create_cases [of env w verbosity autoclobber keepdb])
    case created
    with out show ?thesis by simp
  next
    case (not_caught ex')
    with out show ?thesis by simp
  next
    case (kept cls e)
    with out show ?thesis by simp
  next
    case (input_raises cls e ex')
    with out show ?thesis by simp
  next
    case (declined cls e answer)
    with out show ?thesis by simp
  next
    case (clobber cls e)
    from u_create_clobber [OF clobber(2) refl clobber(3) refl refl refl, of verbosity]
      clobber(1) out
    show ?thesis
      by (auto split: option.splits exn.splits)
  qed
  from line107 leaves show ?thesis
    by (simp add: disposition_def)
qed

theorem confirm_read_only_when_assigned_witness:
  "ask_confirm env_decline False ''test_db'' world0 =
     (Inr (Some ''no''), emits [Input (prompt_text ''test_db'') (Inr ''no'')] world0)
   \<and> disposition False (Some ''no'') = Inr False
   \<and> fst (u_create_test_db env_decline 1 False False world0) = Inl (SystemExit 1)"
proof -
  have n: "u_get_test_db_name env_decline world0 = ''test_db''"
    by (simp add: u_get_test_db_name_def env_decline_def env_conflict_def world0_def)
  have k: "count_events kind world0 = 0" for kind
    by (simp add: count_events_def world0_def)
  have c: "create_result env_decline (count_events is_create world0)
             (u_get_test_db_name env_decline world0) = Some (Exception ''AlreadyExists'' ''409'')"
    by (simp add: k env_decline_def env_conflict_def)
  have i: "input_result env_decline j p = Inr ''no''" for j p
    by (simp add: env_decline_def)
  have a: "ask_confirm env_decline False ''test_db'' world0 =
     (Inr (Some ''no''), emits [Input (prompt_text ''test_db'') (Inr ''no'')] world0)"
    by (simp add: ask_confirm_prompt i)
  have out: "fst (u_create_test_db env_decline 1 False False world0) = Inl (SystemExit 1)"
    by (simp add: u_create_declined [OF c i])
  from confirm_read_only_when_assigned
         [of env_decline False "''test_db''" world0 "Some ''no''"
             "emits [Input (prompt_text ''test_db'') (Inr ''no'')] world0" 1 False
             "SystemExit 1"] a out
  show ?thesis by simp
qed

section \<open>The runs of create\_test\_db that return\<close>

lemma and_then_returns:
  assumes "and_then m f w = (Inr r, w')"
  obtains v w1 where "m w = (Inr v, w1)" and "f v w1 = (Inr r, w')"
  using assms by (auto simp: and_then_def split: prod.splits sum.splits)

lemma u_create_returns_name:
  assumes "u_create_test_db env verbosity autoclobber keepdb w = (Inr x, w')"
  shows "x = u_get_test_db_name env w"
proof (cases rule: u_create_cases [of env w verbosity autoclobber keepdb])
  case (clobber cls e)
  from u_create_clobber [OF clobber(2) refl clobber(3) refl refl refl, of verbosity]
    clobber(1) assms
  show ?thesis
    by (auto split: option.splits exn.splits)
qed (use assms in auto)

lemma u_create_frame:
  "only_adds is_creation_event w (snd (u_create_test_db env verbosity autoclobber keepdb w)) \<and>
   classes (snd (u_create_test_db env verbosity autoclobber keepdb w)) = classes w \<and>
   settings_dict (snd (u_create_test_db env verbosity autoclobber keepdb w)) = settings_dict w \<and>
   settings_DATABASES (snd (u_create_test_db env verbosity autoclobber keepdb w)) =
     settings_DATABASES w \<and>
   test_serialized_contents (snd (u_create_test_db env verbosity autoclobber keepdb w)) =
     test_serialized_contents w \<and>
   filter is_create (new_events w (snd (u_create_test_db env verbosity autoclobber keepdb w))) \<noteq> []"
proof -
  from u_create_events [of env verbosity autoclobber keepdb w]
  obtain evs where evs: "snd (u_create_test_db env verbosity autoclobber keepdb w) = emits evs w"
    "list_all is_creation_event evs"
    by auto
  have "filter is_create (new_events w (snd (u_create_test_db env verbosity autoclobber keepdb w))) \<noteq> []"
  proof (cases rule: u_create_cases [of env w verbosity autoclobber keepdb])
    case (clobber cls e)
    from u_create_clobber [OF clobber(2) refl clobber(3) refl refl refl, of verbosity] clobber(1)
    show ?thesis
      by (auto split: option.splits exn.splits)
  qed auto
  with evs show ?thesis by simp
qed

lemma log_action_frame:
  "fst (log_action env verbosity keepdb n w) = Inr () \<and>
   only_adds is_creation_event w (snd (log_action env verbosity keepdb n w)) \<and>
   classes (snd (log_action env verbosity keepdb n w)) = classes w \<and>
   settings_dict (snd (log_action env verbosity keepdb n w)) = settings_dict w \<and>
   settings_DATABASES (snd (log_action env verbosity keepdb n w)) = settings_DATABASES w \<and>
   test_serialized_contents (snd (log_action env verbosity keepdb n w)) =
     test_serialized_contents w"
  by (simp add: log_action_def Let_def is_creation_event_def)

lemma finish_returns:
  assumes "and_then (connection_close env) (\<lambda>_.
       and_then (settings_set_name env n) (\<lambda>_.
       and_then (connection_set_name n) (\<lambda>_.
       and_then (maybe_serialize env serialize) (\<lambda>_.
       and_then (call_command env ''createcachetable'' (connection_alias env)) (\<lambda>_.
       and_then (ensure_connection env) (\<lambda>_ w'.
         (Inr n, w'))))))) w = (Inr r, w')"
  shows "r = n
     \<and> (serialize \<longrightarrow> (\<exists>s. serialize_result env = Inr s \<and> test_serialized_contents w' = Some s))
     \<and> (\<not> serialize \<longrightarrow> test_serialized_contents w' = test_serialized_contents w)
     \<and> (\<exists>db. settings_DATABASES w (connection_alias env) = Some db \<and>
              settings_DATABASES w' =
                (settings_DATABASES w)(connection_alias env \<mapsto> db(''NAME'' \<mapsto> n)))
     \<and> settings_dict w' = (settings_dict w)(''NAME'' \<mapsto> n)
     \<and> classes w' = classes w
     \<and> trace w' = trace w @
          [ConnectionClose None, SettingsSetName (connection_alias env) n, ConnectionSetName n] @
          (if serialize then [SerializeDb (serialize_result env)] else []) @
          [CallCommand ''createcachetable'' (connection_alias env) None, EnsureConnection None]"
  using assms
  by (auto simp: and_then_def connection_close_def settings_set_name_def connection_set_name_def
        maybe_serialize_def serialize_db_to_string_def set_test_serialized_contents_def
        call_command_def ensure_connection_def Let_def outcome_of_def
        split: option.splits sum.splits if_splits)

text \<open>
  A run that returns went through the skips (\<open>w1\<close>), the log line and the creation
  (\<open>w3\<close>), and then through the closing steps, in this order.
\<close>

lemma create_test_db_returns:
  assumes run: "create_test_db env verbosity autoclobber serialize keepdb w = (Inr r, w')"
  shows "\<exists>w1 w3.
      r = u_get_test_db_name env w
    \<and> only_adds is_setattr w w1
    \<and> only_adds is_creation_event w1 w3
    \<and> filter is_create (new_events w1 w3) \<noteq> []
    \<and> settings_dict w3 = settings_dict w
    \<and> settings_DATABASES w3 = settings_DATABASES w
    \<and> test_serialized_contents w3 = test_serialized_contents w
    \<and> (serialize \<longrightarrow> (\<exists>s. serialize_result env = Inr s \<and> test_serialized_contents w' = Some s))
    \<and> (\<not> serialize \<longrightarrow> test_serialized_contents w' = test_serialized_contents w)
    \<and> (\<exists>db. settings_DATABASES w (connection_alias env) = Some db \<and>
             settings_DATABASES w' =
               (settings_DATABASES w)(connection_alias env \<mapsto> db(''NAME'' \<mapsto> r)))
    \<and> settings_dict w' = (settings_dict w)(''NAME'' \<mapsto> r)
    \<and> trace w' = trace w3 @
         [ConnectionClose None, SettingsSetName (connection_alias env) r, ConnectionSetName r] @
         (if serialize then [SerializeDb (serialize_result env)] else []) @
         [CallCommand ''createcachetable'' (connection_alias env) None, EnsureConnection None]"
proof -
  from run obtain u1 w1 where
    s1: "maybe_mark_skips env w = (Inr u1, w1)" and
    r1: "and_then (log_action env verbosity keepdb (u_get_test_db_name env w1)) (\<lambda>_.
       and_then (u_create_test_db env verbosity autoclobber keepdb) (\<lambda>_.
       and_then (connection_close env) (\<lambda>_.
       and_then (settings_set_name env (u_get_test_db_name env w1)) (\<lambda>_.
       and_then (connection_set_name (u_get_test_db_name env w1)) (\<lambda>_.
       and_then (maybe_serialize env serialize) (\<lambda>_.
       and_then (call_command env ''createcachetable'' (connection_alias env)) (\<lambda>_.
       and_then (ensure_connection env) (\<lambda>_ w'.
         (Inr (u_get_test_db_name env w1), w'))))))))) w1 = (Inr r, w')"
    unfolding create_test_db_def Let_def by (rule and_then_returns)
  from r1 obtain u2 w2 where
    s2: "log_action env verbosity keepdb (u_get_test_db_name env w1) w1 = (Inr u2, w2)" and
    r2: "and_then (u_create_test_db env verbosity autoclobber keepdb) (\<lambda>_.
       and_then (connection_close env) (\<lambda>_.
       and_then (settings_set_name env (u_get_test_db_name env w1)) (\<lambda>_.
       and_then (connection_set_name (u_get_test_db_name env w1)) (\<lambda>_.
       and_then (maybe_serialize env serialize) (\<lambda>_.
       and_then (call_command env ''createcachetable'' (connection_alias env)) (\<lambda>_.
       and_then (ensure_connection env) (\<lambda>_ w'.
         (Inr (u_get_test_db_name env w1), w')))))))) w2 = (Inr r, w')"
    by (rule and_then_returns)
  from r2 obtain x w3 where
    s3: "u_create_test_db env verbosity autoclobber keepdb w2 = (Inr x, w3)" and
    r3: "and_then (connection_close env) (\<lambda>_.
       and_then (settings_set_name env (u_get_test_db_name env w1)) (\<lambda>_.
       and_then (connection_set_name (u_get_test_db_name env w1)) (\<lambda>_.
       and_then (maybe_serialize env serialize) (\<lambda>_.
       and_then (call_command env ''createcachetable'' (connection_alias env)) (\<lambda>_.
       and_then (ensure_connection env) (\<lambda>_ w'.
         (Inr (u_get_test_db_name env w1), w'))))))) w3 = (Inr r, w')"
    by (rule and_then_returns)
  from maybe_mark_skips_frame [of w env] s1
  have f1: "only_adds is_setattr w w1" "settings_dict w1 = settings_dict w"
    "settings_DATABASES w1 = settings_DATABASES w"
    "test_serialized_contents w1 = test_serialized_contents w"
    by simp_all
  from log_action_frame [of env verbosity keepdb "u_get_test_db_name env w1" w1] s2
  have f2: "only_adds is_creation_event w1 w2" "settings_dict w2 = settings_dict w1"
    "settings_DATABASES w2 = settings_DATABASES w1"
    "test_serialized_contents w2 = test_serialized_contents w1"
    by simp_all
  from u_create_frame [of w2 env verbosity autoclobber keepdb] s3
  have f3: "only_adds is_creation_event w2 w3" "settings_dict w3 = settings_dict w2"
    "settings_DATABASES w3 = settings_DATABASES w2"
    "test_serialized_contents w3 = test_serialized_contents w2"
    "filter is_create (new_events w2 w3) \<noteq> []"
    by simp_all
  have n: "u_get_test_db_name env w1 = u_get_test_db_name env w"
    using f1 by (simp add: u_get_test_db_name_def)
  from f2(1) f3(1) have a13: "only_adds is_creation_event w1 w3"
    by (rule only_adds_trans)
  from f3(5) have c13: "filter is_create (new_events w1 w3) \<noteq> []"
    by (simp add: new_events_trans [OF f2(1) f3(1)])
  have sd: "settings_dict w3 = settings_dict w"
    using f1(2) f2(2) f3(2) by simp
  have sD: "settings_DATABASES w3 = settings_DATABASES w"
    using f1(3) f2(3) f3(3) by simp
  have ts: "test_serialized_contents w3 = test_serialized_contents w"
    using f1(4) f2(4) f3(4) by simp
  note fr = finish_returns [OF r3, unfolded n sd sD ts]
  from fr have rn: "r = u_get_test_db_name env w" by (rule conjunct1)
  from fr [folded rn] f1(1) a13 c13 sd sD ts rn show ?thesis
    by (intro exI [of _ w1] exI [of _ w3]) blast
qed


lemma returns_new_events:
  assumes "only_adds is_setattr w w1" and "only_adds is_creation_event w1 w3"
    and "trace w' = trace w3 @ tl_evs"
  shows "new_events w w' = new_events w w1 @ new_events w1 w3 @ tl_evs"
  using assms by (auto simp: only_adds_iff new_events_def)

lemma filter_none:
  "list_all kind evs \<Longrightarrow> (\<And>ev. kind ev \<Longrightarrow> \<not> other ev) \<Longrightarrow> filter other evs = []"
  by (auto simp: list_all_iff filter_empty_conv)

lemma setattr_event_kinds:
  "is_setattr ev \<Longrightarrow> \<not> is_serialize ev"
  "is_setattr ev \<Longrightarrow> \<not> is_close_or_rename ev"
  "is_setattr ev \<Longrightarrow> \<not> is_cachetable ev"
  by (cases ev; simp)+

lemma creation_event_kinds:
  "is_creation_event ev \<Longrightarrow> \<not> is_serialize ev"
  "is_creation_event ev \<Longrightarrow> \<not> is_close_or_rename ev"
  "is_creation_event ev \<Longrightarrow> \<not> is_cachetable ev"
  by (cases ev; simp add: is_creation_event_def)+

section \<open>The snapshot\<close>

text \<open>
  C5. In a run of \<open>create_test_db\<close> that returns, \<open>serialize_db_to_string\<close> is
  called once when \<open>serialize\<close> is true and the connection then holds what it
  returned; it is not called when \<open>serialize\<close> is false, and the connection's
  \<open>_test_serialized_contents\<close> is then what it was. So a connection without a
  snapshot has one afterwards exactly when \<open>serialize\<close> is true.
\<close>

theorem snapshot_iff_serialize:
  assumes "create_test_db env verbosity autoclobber serialize keepdb w = (Inr r, w')"
  shows "filter is_serialize (new_events w w') =
           (if serialize then [SerializeDb (serialize_result env)] else [])
       \<and> (serialize \<longrightarrow>
            (\<exists>s. serialize_result env = Inr s \<and> test_serialized_contents w' = Some s))
       \<and> (\<not> serialize \<longrightarrow> test_serialized_contents w' = test_serialized_contents w)
       \<and> (test_serialized_contents w = None \<longrightarrow>
            (test_serialized_contents w' \<noteq> None) = serialize)"
proof -
  from create_test_db_returns [OF assms] obtain w1 w3 where
    a1: "only_adds is_setattr w w1" and
    a2: "only_adds is_creation_event w1 w3" and
    ser: "serialize \<longrightarrow>
            (\<exists>s. serialize_result env = Inr s \<and> test_serialized_contents w' = Some s)" and
    nser: "\<not> serialize \<longrightarrow> test_serialized_contents w' = test_serialized_contents w" and
    tr: "trace w' = trace w3 @
         [ConnectionClose None, SettingsSetName (connection_alias env) r, ConnectionSetName r] @
         (if serialize then [SerializeDb (serialize_result env)] else []) @
         [CallCommand ''createcachetable'' (connection_alias env) None, EnsureConnection None]"
    by blast
  have s1: "filter is_serialize (new_events w w1) = []"
    using only_adds_new_events [OF a1] by (rule filter_none) (rule setattr_event_kinds)
  have s2: "filter is_serialize (new_events w1 w3) = []"
    using only_adds_new_events [OF a2] by (rule filter_none) (rule creation_event_kinds)
  have "filter is_serialize (new_events w w') =
           (if serialize then [SerializeDb (serialize_result env)] else [])"
    by (simp add: returns_new_events [OF a1 a2 tr] s1 s2)
  with ser nser show ?thesis by auto
qed

theorem snapshot_iff_serialize_witness:
  "create_test_db env_conflict 0 True True False world0 =
     (Inr ''test_db'', snd (create_test_db env_conflict 0 True True False world0))
   \<and> filter is_serialize
        (new_events world0 (snd (create_test_db env_conflict 0 True True False world0))) =
       [SerializeDb (Inr ''[]'')]
   \<and> test_serialized_contents (snd (create_test_db env_conflict 0 True True False world0)) =
       Some ''[]''"
proof -
  have run: "fst (create_test_db env_conflict 0 True True False world0) = Inr ''test_db''"
    by code_simp
  then have h: "create_test_db env_conflict 0 True True False world0 =
     (Inr ''test_db'', snd (create_test_db env_conflict 0 True True False world0))"
    by (simp add: prod_eq_iff)
  have s: "serialize_result env_conflict = Inr ''[]''"
    by (simp add: env_conflict_def)
  from snapshot_iff_serialize [OF h] h s show ?thesis by auto
qed

section \<open>The name of the test database\<close>

text \<open>
  C6. A run of \<open>create_test_db\<close> that returns, on whatever path, returns the name
  that \<open>_get_test_db_name\<close> gives for the connection as it was at the call. Afterwards
  \<^verbatim>\<open>settings.DATABASES[alias]["NAME"]\<close> and the connection's
  \<^verbatim>\<open>settings_dict["NAME"]\<close> are that name, and the run closed the connection once,
  before it wrote the two names.
\<close>

theorem returns_test_db_name:
  assumes "create_test_db env verbosity autoclobber serialize keepdb w = (Inr r, w')"
  shows "r = u_get_test_db_name env w
       \<and> (\<exists>db. settings_DATABASES w' (connection_alias env) = Some db \<and> db ''NAME'' = Some r)
       \<and> settings_dict w' ''NAME'' = Some r
       \<and> filter is_close_or_rename (new_events w w') =
           [ConnectionClose None, SettingsSetName (connection_alias env) r, ConnectionSetName r]"
proof -
  from create_test_db_returns [OF assms] obtain w1 w3 db where
    rn: "r = u_get_test_db_name env w" and
    a1: "only_adds is_setattr w w1" and
    a2: "only_adds is_creation_event w1 w3" and
    sD: "settings_DATABASES w' =
           (settings_DATABASES w)(connection_alias env \<mapsto> db(''NAME'' \<mapsto> r))" and
    sd: "settings_dict w' = (settings_dict w)(''NAME'' \<mapsto> r)" and
    tr: "trace w' = trace w3 @
         [ConnectionClose None, SettingsSetName (connection_alias env) r, ConnectionSetName r] @
         (if serialize then [SerializeDb (serialize_result env)] else []) @
         [CallCommand ''createcachetable'' (connection_alias env) None, EnsureConnection None]"
    by blast
  have s1: "filter is_close_or_rename (new_events w w1) = []"
    using only_adds_new_events [OF a1] by (rule filter_none) (rule setattr_event_kinds)
  have s2: "filter is_close_or_rename (new_events w1 w3) = []"
    using only_adds_new_events [OF a2] by (rule filter_none) (rule creation_event_kinds)
  have "filter is_close_or_rename (new_events w w') =
           [ConnectionClose None, SettingsSetName (connection_alias env) r, ConnectionSetName r]"
    by (simp add: returns_new_events [OF a1 a2 tr] s1 s2)
  with rn sD sd show ?thesis by simp
qed

theorem returns_test_db_name_witness:
  "create_test_db env_conflict 0 True True False world0 =
     (Inr ''test_db'', snd (create_test_db env_conflict 0 True True False world0))
   \<and> u_get_test_db_name env_conflict world0 = ''test_db''
   \<and> settings_dict (snd (create_test_db env_conflict 0 True True False world0)) ''NAME'' =
       Some ''test_db''"
proof -
  have run: "fst (create_test_db env_conflict 0 True True False world0) = Inr ''test_db''"
    by code_simp
  then have h: "create_test_db env_conflict 0 True True False world0 =
     (Inr ''test_db'', snd (create_test_db env_conflict 0 True True False world0))"
    by (simp add: prod_eq_iff)
  from returns_test_db_name [OF h] h show ?thesis by simp
qed

section \<open>The order of the steps\<close>

lemma dropWhile_skip:
  "list_all P xs \<Longrightarrow> dropWhile P (xs @ ys) = dropWhile P ys"
  by (induction xs) simp_all

lemma precedes_Nil [simp]: "precedes P Q []"
  by (simp add: precedes_def)

lemma precedes_skip:
  "list_all (\<lambda>ev. \<not> Q ev) xs \<Longrightarrow> precedes P Q (xs @ ys) = precedes P Q ys"
  by (simp add: precedes_def dropWhile_skip)

lemma precedes_none:
  "list_all (\<lambda>ev. \<not> P ev) xs \<Longrightarrow> precedes P Q xs"
  unfolding precedes_def list_all_iff
  by (meson set_dropWhileD)

text \<open>
  Lines 67 to 79, in any world and with any collaborators: the events are a beginning of
  the six closing events, all of them when the lines return.
\<close>

lemma finish_run:
  "\<exists>rest.
     trace (snd ((and_then (connection_close env) (\<lambda>_.
       and_then (settings_set_name env n) (\<lambda>_.
       and_then (connection_set_name n) (\<lambda>_.
       and_then (maybe_serialize env serialize) (\<lambda>_.
       and_then (call_command env ''createcachetable'' (connection_alias env)) (\<lambda>_.
       and_then (ensure_connection env) (\<lambda>_ w'.
         (Inr n, w')))))))) w)) = trace w @ rest
   \<and> classes (snd ((and_then (connection_close env) (\<lambda>_.
       and_then (settings_set_name env n) (\<lambda>_.
       and_then (connection_set_name n) (\<lambda>_.
       and_then (maybe_serialize env serialize) (\<lambda>_.
       and_then (call_command env ''createcachetable'' (connection_alias env)) (\<lambda>_.
       and_then (ensure_connection env) (\<lambda>_ w'.
         (Inr n, w')))))))) w)) = classes w
   \<and> take (length rest)
         ([ConnectionClose (close_result env), SettingsSetName (connection_alias env) n,
           ConnectionSetName n] @
          (if serialize then [SerializeDb (serialize_result env)] else []) @
          [CallCommand ''createcachetable'' (connection_alias env)
             (call_command_result env ''createcachetable'' (connection_alias env)),
           EnsureConnection (ensure_connection_result env)]) = rest
   \<and> (\<forall>r. fst ((and_then (connection_close env) (\<lambda>_.
       and_then (settings_set_name env n) (\<lambda>_.
       and_then (connection_set_name n) (\<lambda>_.
       and_then (maybe_serialize env serialize) (\<lambda>_.
       and_then (call_command env ''createcachetable'' (connection_alias env)) (\<lambda>_.
       and_then (ensure_connection env) (\<lambda>_ w'.
         (Inr n, w')))))))) w) = Inr r \<longrightarrow>
        rest = [ConnectionClose None, SettingsSetName (connection_alias env) n,
                ConnectionSetName n] @
               (if serialize then [SerializeDb (serialize_result env)] else []) @
               [CallCommand ''createcachetable'' (connection_alias env) None,
                EnsureConnection None])
   \<and> list_all (\<lambda>ev. \<not> is_setattr ev) rest
   \<and> list_all (\<lambda>ev. \<not> is_creation_event ev) rest
   \<and> precedes is_serialize is_cachetable rest"
  by (auto simp: and_then_def connection_close_def settings_set_name_def connection_set_name_def
        maybe_serialize_def serialize_db_to_string_def set_test_serialized_contents_def
        call_command_def ensure_connection_def Let_def outcome_of_def precedes_def
        is_creation_event_def
        split: option.splits sum.splits if_splits)


lemma setattr_not_creation: "is_setattr ev \<Longrightarrow> \<not> is_creation_event ev"
  by (cases ev) (simp_all add: is_creation_event_def)

lemma and_then_Inl: "m w = (Inl e, w') \<Longrightarrow> and_then m f w = (Inl e, w')"
  by (simp add: and_then_def)

lemma and_then_Inr: "m w = (Inr v, w') \<Longrightarrow> and_then m f w = f v w'"
  by (simp add: and_then_def)

text \<open>
  Every run of \<open>create_test_db\<close>, however it ends: the world after the skips is
  \<open>w1\<close>, the world after the log line and the creation is \<open>w3\<close>, and then come the
  closing events, as far as the run gets.
\<close>

lemma create_test_db_run:
  fixes env verbosity autoclobber serialize keepdb w
  shows "\<exists>acts rest.
      new_events w (snd (create_test_db env verbosity autoclobber serialize keepdb w)) =
        new_events w (snd (maybe_mark_skips env w)) @ acts @ rest
    \<and> classes (snd (create_test_db env verbosity autoclobber serialize keepdb w)) =
        classes (snd (maybe_mark_skips env w))
    \<and> (\<forall>e. fst (maybe_mark_skips env w) = Inl e \<longrightarrow>
          fst (create_test_db env verbosity autoclobber serialize keepdb w) = Inl e \<and>
          acts = [] \<and> rest = [])
    \<and> ((\<exists>u. fst (maybe_mark_skips env w) = Inr u) \<longrightarrow>
          acts = new_events (snd (maybe_mark_skips env w))
                   (snd (u_create_test_db env verbosity autoclobber keepdb
                      (snd (log_action env verbosity keepdb (u_get_test_db_name env w)
                              (snd (maybe_mark_skips env w)))))) \<and>
          filter is_create acts \<noteq> [] \<and>
          (\<forall>e. fst (u_create_test_db env verbosity autoclobber keepdb
                      (snd (log_action env verbosity keepdb (u_get_test_db_name env w)
                              (snd (maybe_mark_skips env w))))) = Inl e \<longrightarrow>
               fst (create_test_db env verbosity autoclobber serialize keepdb w) = Inl e \<and>
               rest = []))
    \<and> list_all is_creation_event acts
    \<and> take (length rest)
         ([ConnectionClose (close_result env),
           SettingsSetName (connection_alias env) (u_get_test_db_name env w),
           ConnectionSetName (u_get_test_db_name env w)] @
          (if serialize then [SerializeDb (serialize_result env)] else []) @
          [CallCommand ''createcachetable'' (connection_alias env)
             (call_command_result env ''createcachetable'' (connection_alias env)),
           EnsureConnection (ensure_connection_result env)]) = rest
    \<and> (\<forall>r. fst (create_test_db env verbosity autoclobber serialize keepdb w) = Inr r \<longrightarrow>
          rest = [ConnectionClose None,
                  SettingsSetName (connection_alias env) (u_get_test_db_name env w),
                  ConnectionSetName (u_get_test_db_name env w)] @
                 (if serialize then [SerializeDb (serialize_result env)] else []) @
                 [CallCommand ''createcachetable'' (connection_alias env) None,
                  EnsureConnection None])
    \<and> list_all (\<lambda>ev. \<not> is_setattr ev) rest
    \<and> list_all (\<lambda>ev. \<not> is_creation_event ev) rest
    \<and> precedes is_serialize is_cachetable rest"
proof -
  let ?R = "create_test_db env verbosity autoclobber serialize keepdb w"
  let ?n = "u_get_test_db_name env w"
  obtain r1 w1 where m: "maybe_mark_skips env w = (r1, w1)"
    by (cases "maybe_mark_skips env w")
  from maybe_mark_skips_frame [of w env] m
  have f1: "only_adds is_setattr w w1" and sd1: "settings_dict w1 = settings_dict w"
    by simp_all
  from sd1 have n1: "u_get_test_db_name env w1 = ?n"
    by (simp add: u_get_test_db_name_def)
  show ?thesis
  proof (cases r1)
    case (Inl e)
    with m have "?R = (Inl e, w1)"
      by (simp add: create_test_db_def and_then_Inl)
    with m Inl show ?thesis
      by (intro exI [of _ "[]"]) simp
  next
    case (Inr u)
    obtain w2 where l: "log_action env verbosity keepdb ?n w1 = (Inr (), w2)"
      using log_action_frame [of env verbosity keepdb ?n w1]
      by (cases "log_action env verbosity keepdb ?n w1") auto
    from log_action_frame [of env verbosity keepdb ?n w1] l
    have f2: "only_adds is_creation_event w1 w2" and c2: "classes w2 = classes w1"
      by simp_all
    obtain r3 w3 where c: "u_create_test_db env verbosity autoclobber keepdb w2 = (r3, w3)"
      by (cases "u_create_test_db env verbosity autoclobber keepdb w2")
    from u_create_frame [of w2 env verbosity autoclobber keepdb] c
    have f3: "only_adds is_creation_event w2 w3" and c3: "classes w3 = classes w2"
      and cr: "filter is_create (new_events w2 w3) \<noteq> []"
      by simp_all
    from f2 f3 have a13: "only_adds is_creation_event w1 w3"
      by (rule only_adds_trans)
    from cr have c13: "filter is_create (new_events w1 w3) \<noteq> []"
      by (simp add: new_events_trans [OF f2 f3])
    have l13: "list_all is_creation_event (new_events w1 w3)"
      by (rule only_adds_new_events [OF a13])
    have ne3: "new_events w w3 = new_events w w1 @ new_events w1 w3"
      by (rule new_events_trans [OF f1 a13])
    from f1 a13 obtain xs where t3: "trace w3 = trace w @ xs"
      by (auto simp: only_adds_iff)
    show ?thesis
    proof (cases r3)
      case (Inl e)
      with m Inr l c n1 have R: "?R = (Inl e, w3)"
        by (simp add: create_test_db_def Let_def and_then_Inr and_then_Inl)
      from R m Inr l c Inl ne3 c13 l13 c2 c3 show ?thesis
        by (intro exI [of _ "new_events w1 w3"] exI [of _ "[]"]) simp
    next
      case r3: (Inr x)
      let ?chain = "and_then (connection_close env) (\<lambda>_.
         and_then (settings_set_name env ?n) (\<lambda>_.
         and_then (connection_set_name ?n) (\<lambda>_.
         and_then (maybe_serialize env serialize) (\<lambda>_.
         and_then (call_command env ''createcachetable'' (connection_alias env)) (\<lambda>_.
         and_then (ensure_connection env) (\<lambda>_ w'.
           (Inr ?n, w')))))))"
      from m Inr l c r3 n1 have R: "?R = ?chain w3"
        by (simp add: create_test_db_def Let_def and_then_Inr)
      from finish_run [of env ?n serialize w3] obtain rest where
        tr: "trace (snd (?chain w3)) = trace w3 @ rest" and
        cl: "classes (snd (?chain w3)) = classes w3" and
        pre: "take (length rest)
         ([ConnectionClose (close_result env), SettingsSetName (connection_alias env) ?n,
           ConnectionSetName ?n] @
          (if serialize then [SerializeDb (serialize_result env)] else []) @
          [CallCommand ''createcachetable'' (connection_alias env)
             (call_command_result env ''createcachetable'' (connection_alias env)),
           EnsureConnection (ensure_connection_result env)]) = rest" and
        ret: "\<forall>r. fst (?chain w3) = Inr r \<longrightarrow>
          rest = [ConnectionClose None, SettingsSetName (connection_alias env) ?n,
                  ConnectionSetName ?n] @
                 (if serialize then [SerializeDb (serialize_result env)] else []) @
                 [CallCommand ''createcachetable'' (connection_alias env) None,
                  EnsureConnection None]" and
        k1: "list_all (\<lambda>ev. \<not> is_setattr ev) rest" and
        k2: "list_all (\<lambda>ev. \<not> is_creation_event ev) rest" and
        k3: "precedes is_serialize is_cachetable rest"
        by blast
      have "new_events w (snd ?R) = new_events w w3 @ rest"
        using tr t3 by (simp add: R new_events_def)
      with ne3 have ne: "new_events w (snd ?R) = new_events w w1 @ new_events w1 w3 @ rest"
        by simp
      have cls: "classes (snd ?R) = classes w1"
        using cl c2 c3 by (simp add: R)
      from ret have ret': "\<forall>r. fst ?R = Inr r \<longrightarrow>
          rest = [ConnectionClose None, SettingsSetName (connection_alias env) ?n,
                  ConnectionSetName ?n] @
                 (if serialize then [SerializeDb (serialize_result env)] else []) @
                 [CallCommand ''createcachetable'' (connection_alias env) None,
                  EnsureConnection None]"
        by (simp only: R)
      from ne cls m Inr l c r3 c13 l13 pre k1 k2 k3 ret' show ?thesis
        by (intro exI [of _ "new_events w1 w3"] exI [of _ rest]) simp
    qed
  qed
qed

text \<open>
  C8, as the specification has it, puts the cache table before the snapshot. In the run
  of \<open>env_conflict\<close> with \<open>serialize\<close> true, which returns, the cache-table command
  comes after the call to \<open>serialize_db_to_string\<close>.
\<close>

theorem cachetable_before_snapshot_counterexample:
  "fst (create_test_db env_conflict 1 False True False world0) = Inr ''test_db''
   \<and> \<not> precedes is_cachetable is_serialize
         (new_events world0 (snd (create_test_db env_conflict 1 False True False world0)))
   \<and> precedes is_serialize is_cachetable
         (new_events world0 (snd (create_test_db env_conflict 1 False True False world0)))"
  by code_simp

text \<open>
  C8, amended. In every run of \<open>create_test_db\<close>, however it ends, the events come in
  this order: first the registrations that \<open>mark_skips\<close> makes (\<open>w1\<close> is the world
  after them; there are none unless the environment flag is \<^verbatim>\<open>1\<close>, and the classes
  stay as \<open>mark_skips\<close> left them); then the log line and what \<open>_create_test_db\<close>
  does (\<open>w3\<close> is the world after it), with at least one create; then the closing of the
  connection and the writing of the two names; then the call to
  \<open>serialize_db_to_string\<close>, if \<open>serialize\<close> is true; then the cache-table command;
  then the check of the connection. A run that an exception ends stops where the exception
  is raised; a run that returns has made all of these steps. So the snapshot comes before
  the cache table, in every run, and in no returning run after it.
\<close>

theorem steps_in_order:
  "\<exists>w1 w3 acts rest.
      w1 = (if environ env ''RUNNING_SPANNER_BACKEND_TESTS'' = Some ''1''
            then snd (mark_skips env w) else w)
    \<and> w3 = snd (u_create_test_db env verbosity autoclobber keepdb
                  (snd (log_action env verbosity keepdb (u_get_test_db_name env w) w1)))
    \<and> new_events w (snd (create_test_db env verbosity autoclobber serialize keepdb w)) =
        new_events w w1 @ acts @ rest
    \<and> list_all is_setattr (new_events w w1)
    \<and> classes (snd (create_test_db env verbosity autoclobber serialize keepdb w)) = classes w1
    \<and> (\<forall>e. environ env ''RUNNING_SPANNER_BACKEND_TESTS'' = Some ''1'' \<and>
             fst (mark_skips env w) = Inl e \<longrightarrow>
          fst (create_test_db env verbosity autoclobber serialize keepdb w) = Inl e \<and>
          acts = [] \<and> rest = [])
    \<and> ((environ env ''RUNNING_SPANNER_BACKEND_TESTS'' = Some ''1'' \<longrightarrow>
           fst (mark_skips env w) = Inr ()) \<longrightarrow>
          acts = new_events w1 w3 \<and> filter is_create acts \<noteq> [] \<and>
          (\<forall>e. fst (u_create_test_db env verbosity autoclobber keepdb
                      (snd (log_action env verbosity keepdb (u_get_test_db_name env w) w1))) =
                 Inl e \<longrightarrow>
               fst (create_test_db env verbosity autoclobber serialize keepdb w) = Inl e \<and>
               rest = []))
    \<and> list_all is_creation_event acts
    \<and> take (length rest)
         ([ConnectionClose (close_result env),
           SettingsSetName (connection_alias env) (u_get_test_db_name env w),
           ConnectionSetName (u_get_test_db_name env w)] @
          (if serialize then [SerializeDb (serialize_result env)] else []) @
          [CallCommand ''createcachetable'' (connection_alias env)
             (call_command_result env ''createcachetable'' (connection_alias env)),
           EnsureConnection (ensure_connection_result env)]) = rest
    \<and> (\<forall>r. fst (create_test_db env verbosity autoclobber serialize keepdb w) = Inr r \<longrightarrow>
          rest = [ConnectionClose None,
                  SettingsSetName (connection_alias env) (u_get_test_db_name env w),
                  ConnectionSetName (u_get_test_db_name env w)] @
                 (if serialize then [SerializeDb (serialize_result env)] else []) @
                 [CallCommand ''createcachetable'' (connection_alias env) None,
                  EnsureConnection None])
    \<and> precedes is_setattr is_creation_event
        (new_events w (snd (create_test_db env verbosity autoclobber serialize keepdb w)))
    \<and> precedes is_creation_event is_serialize
        (new_events w (snd (create_test_db env verbosity autoclobber serialize keepdb w)))
    \<and> precedes is_serialize is_cachetable
        (new_events w (snd (create_test_db env verbosity autoclobber serialize keepdb w)))
    \<and> (\<forall>r. serialize \<and>
             fst (create_test_db env verbosity autoclobber serialize keepdb w) = Inr r \<longrightarrow>
          \<not> precedes is_cachetable is_serialize
              (new_events w (snd (create_test_db env verbosity autoclobber serialize keepdb w))))"
proof -
  let ?R = "create_test_db env verbosity autoclobber serialize keepdb w"
  let ?flag = "environ env ''RUNNING_SPANNER_BACKEND_TESTS'' = Some ''1''"
  let ?w1 = "if ?flag then snd (mark_skips env w) else w"
  let ?w3 = "snd (u_create_test_db env verbosity autoclobber keepdb
                  (snd (log_action env verbosity keepdb (u_get_test_db_name env w) ?w1)))"
  have w1: "snd (maybe_mark_skips env w) = ?w1"
    by (simp add: maybe_mark_skips_def)
  have r1: "fst (maybe_mark_skips env w) = (if ?flag then fst (mark_skips env w) else Inr ())"
    by (simp add: maybe_mark_skips_def)
  from create_test_db_run [of w env verbosity autoclobber serialize keepdb]
  obtain acts rest where
    ne: "new_events w (snd ?R) = new_events w ?w1 @ acts @ rest" and
    cls: "classes (snd ?R) = classes ?w1" and
    raised1: "\<forall>e. fst (maybe_mark_skips env w) = Inl e \<longrightarrow>
          fst ?R = Inl e \<and> acts = [] \<and> rest = []" and
    went: "(\<exists>u. fst (maybe_mark_skips env w) = Inr u) \<longrightarrow>
          acts = new_events ?w1 ?w3 \<and> filter is_create acts \<noteq> [] \<and>
          (\<forall>e. fst (u_create_test_db env verbosity autoclobber keepdb
                      (snd (log_action env verbosity keepdb (u_get_test_db_name env w) ?w1))) =
                 Inl e \<longrightarrow> fst ?R = Inl e \<and> rest = [])" and
    la: "list_all is_creation_event acts" and
    pre: "take (length rest)
         ([ConnectionClose (close_result env),
           SettingsSetName (connection_alias env) (u_get_test_db_name env w),
           ConnectionSetName (u_get_test_db_name env w)] @
          (if serialize then [SerializeDb (serialize_result env)] else []) @
          [CallCommand ''createcachetable'' (connection_alias env)
             (call_command_result env ''createcachetable'' (connection_alias env)),
           EnsureConnection (ensure_connection_result env)]) = rest" and
    ret: "\<forall>r. fst ?R = Inr r \<longrightarrow>
          rest = [ConnectionClose None,
                  SettingsSetName (connection_alias env) (u_get_test_db_name env w),
                  ConnectionSetName (u_get_test_db_name env w)] @
                 (if serialize then [SerializeDb (serialize_result env)] else []) @
                 [CallCommand ''createcachetable'' (connection_alias env) None,
                  EnsureConnection None]" and
    k1: "list_all (\<lambda>ev. \<not> is_setattr ev) rest" and
    k2: "list_all (\<lambda>ev. \<not> is_creation_event ev) rest" and
    k3: "precedes is_serialize is_cachetable rest"
    unfolding w1 by blast
  have ls: "list_all is_setattr (new_events w ?w1)"
    using maybe_mark_skips_frame [of w env] by (simp add: w1 only_adds_new_events)
  have raised1': "\<forall>e. ?flag \<and> fst (mark_skips env w) = Inl e \<longrightarrow>
          fst ?R = Inl e \<and> acts = [] \<and> rest = []"
    using raised1 by (simp add: r1)
  have went': "(?flag \<longrightarrow> fst (mark_skips env w) = Inr ()) \<longrightarrow>
          acts = new_events ?w1 ?w3 \<and> filter is_create acts \<noteq> [] \<and>
          (\<forall>e. fst (u_create_test_db env verbosity autoclobber keepdb
                      (snd (log_action env verbosity keepdb (u_get_test_db_name env w) ?w1))) =
                 Inl e \<longrightarrow> fst ?R = Inl e \<and> rest = [])"
    using went unfolding r1 by (cases ?flag) auto
  text \<open>The kinds of the three parts keep them apart.\<close>
  have s_nc: "list_all (\<lambda>ev. \<not> is_creation_event ev) (new_events w ?w1)"
    using ls by (auto simp: list_all_iff dest: setattr_not_creation)
  have a_ns: "list_all (\<lambda>ev. \<not> is_setattr ev) (acts @ rest)"
    using la k1 by (auto simp: list_all_iff dest: setattr_not_creation)
  have sa_nser: "list_all (\<lambda>ev. \<not> is_serialize ev) (new_events w ?w1 @ acts)"
    using ls la by (auto simp: list_all_iff setattr_event_kinds creation_event_kinds)
  have sa_ncache: "list_all (\<lambda>ev. \<not> is_cachetable ev) (new_events w ?w1 @ acts)"
    using ls la by (auto simp: list_all_iff setattr_event_kinds creation_event_kinds)
  have ne': "new_events w (snd ?R) = (new_events w ?w1 @ acts) @ rest"
    using ne by simp
  have p1: "precedes is_setattr is_creation_event (new_events w (snd ?R))"
    unfolding ne precedes_skip [OF s_nc] by (rule precedes_none [OF a_ns])
  have p2: "precedes is_creation_event is_serialize (new_events w (snd ?R))"
    unfolding ne' precedes_skip [OF sa_nser] by (rule precedes_none [OF k2])
  have p3: "precedes is_serialize is_cachetable (new_events w (snd ?R))"
    unfolding ne' precedes_skip [OF sa_ncache] by (rule k3)
  have p4: "\<not> precedes is_cachetable is_serialize (new_events w (snd ?R))"
    if "serialize" "fst ?R = Inr r" for r
  proof -
    from ret that have "rest = [ConnectionClose None,
                  SettingsSetName (connection_alias env) (u_get_test_db_name env w),
                  ConnectionSetName (u_get_test_db_name env w),
                  SerializeDb (serialize_result env),
                  CallCommand ''createcachetable'' (connection_alias env) None,
                  EnsureConnection None]"
      by simp
    then show ?thesis
      unfolding ne' precedes_skip [OF sa_nser] by (simp add: precedes_def)
  qed
  from ne ls cls raised1' went' la pre ret p1 p2 p3 p4 show ?thesis
    by (intro exI [of _ ?w1] exI [of _ ?w3] exI [of _ acts] exI [of _ rest]) blast
qed


theorem steps_in_order_witness:
  "environ env_conflict ''RUNNING_SPANNER_BACKEND_TESTS'' = Some ''1''
   \<and> fst (mark_skips env_conflict world0) = Inr ()
   \<and> fst (create_test_db env_conflict 1 False True False world0) = Inr ''test_db''
   \<and> classes (snd (create_test_db env_conflict 1 False True False world0)) =
       classes (snd (mark_skips env_conflict world0))
   \<and> run_test (snd (create_test_db env_conflict 1 False True False world0)) 0 ''test_x'' =
       Inr (Skipped ''unsupported by Spanner'')
   \<and> precedes is_serialize is_cachetable
        (new_events world0 (snd (create_test_db env_conflict 1 False True False world0)))
   \<and> \<not> precedes is_cachetable is_serialize
        (new_events world0 (snd (create_test_db env_conflict 1 False True False world0)))"
proof -
  have flag: "environ env_conflict ''RUNNING_SPANNER_BACKEND_TESTS'' = Some ''1''"
    by (simp add: env_conflict_def)
  have ms: "fst (mark_skips env_conflict world0) = Inr ()"
    by code_simp
  have run: "fst (create_test_db env_conflict 1 False True False world0) = Inr ''test_db''"
    by code_simp
  have skipped: "run_test (snd (create_test_db env_conflict 1 False True False world0)) 0
      ''test_x'' = Inr (Skipped ''unsupported by Spanner'')"
    by code_simp
  from steps_in_order [of env_conflict world0 1 False False True] flag ms run skipped
  show ?thesis
    by (elim exE conjE) simp
qed

section \<open>Registering the skips\<close>
















section \<open>Registering the skips twice\<close>









end
